theory Spec2Isabelle
  imports Main "HOL-Library.Word" "HOL-Library.Monad_Syntax"
begin

unbundle bit_operations_syntax

section \<open>Wire types and protocol constants (protocol.h)\<close>

text \<open>
  Fixed-width C integers are words: \<open>uint8_t\<close>, \<open>uint16_t\<close>, \<open>uint32_t\<close> are read
  unsigned, \<open>int64_t\<close> is a 64-bit word read in two's complement by \<open>sint\<close>.
  Plain C \<open>int\<close> values that only count bytes (return values, offsets) are \<open>int\<close>;
  they stay far below \<open>INT_MAX\<close>. The retry counter of \<open>udp_invoke\<close> is the one
  \<open>int\<close> that can reach \<open>INT_MAX\<close>, and its overflow is written out there.
\<close>

type_synonym u8 = "8 word"
type_synonym u16 = "16 word"
type_synonym u32 = "32 word"
type_synonym i64 = "64 word"

definition PROTOCOL_VERSION :: u16 where "PROTOCOL_VERSION = 1"

definition OP_QUERY_AVAIL :: u16 where "OP_QUERY_AVAIL = 0x0001"
definition OP_BOOK :: u16 where "OP_BOOK = 0x0002"
definition OP_CHANGE_BOOKING :: u16 where "OP_CHANGE_BOOKING = 0x0003"
definition OP_MONITOR :: u16 where "OP_MONITOR = 0x0004"
definition OP_CUSTOM_IDEMPOTENT :: u16 where "OP_CUSTOM_IDEMPOTENT = 0x1001"
definition OP_CUSTOM_NON_IDEMPOTENT :: u16 where "OP_CUSTOM_NON_IDEMPOTENT = 0x1002"

definition OP_ERROR_MASK :: u16 where "OP_ERROR_MASK = 0x8000"

definition ERR_CONFLICT :: u16 where "ERR_CONFLICT = 1"
definition ERR_NOT_FOUND :: u16 where "ERR_NOT_FOUND = 2"
definition ERR_BAD_REQUEST :: u16 where "ERR_BAD_REQUEST = 3"
definition ERR_INTERNAL :: u16 where "ERR_INTERNAL = 4"

definition FLAG_AT_MOST_ONCE :: u32 where "FLAG_AT_MOST_ONCE = push_bit 0 1"
definition FLAG_IS_CALLBACK :: u32 where "FLAG_IS_CALLBACK = push_bit 1 1"

definition HEADER_LEN :: int where "HEADER_LEN = 16"

record Header =
  version :: u16
  opCode :: u16
  requestId :: u32
  flags :: u32
  payloadLen :: u32

section \<open>Buffers and byte order\<close>

text \<open>
  A buffer is the list of the bytes of a C array; a pointer \<open>buf + offset\<close> into it is the
  pair of the buffer and the index \<open>offset\<close>. The codec functions receive a bare pointer
  and no length, so nothing in them stops an access beyond the array. The model makes
  that visible: an execution that reads or writes outside the buffer has the value
  \<open>None\<close> (the C behaviour is undefined, the function returns nothing that can be relied
  on), an execution that stays inside has the value \<open>Some\<close> of what the function returns.
  \<open>None\<close> is therefore never a return value of the C function.
\<close>

text \<open>\<open>memcpy(dst, buf + p, n)\<close>, the source side: the \<open>n\<close> bytes at index \<open>p\<close>.\<close>

definition memcpy_from :: "u8 list \<Rightarrow> nat \<Rightarrow> nat \<Rightarrow> u8 list option" where
  "memcpy_from buf p n = (if p + n \<le> length buf then Some (take n (drop p buf)) else None)"

text \<open>\<open>memcpy(buf + p, src, n)\<close>, the destination side, \<open>src\<close> being the \<open>n\<close> bytes copied.\<close>

definition memcpy_to :: "u8 list \<Rightarrow> nat \<Rightarrow> u8 list \<Rightarrow> u8 list option" where
  "memcpy_to buf p src =
     (if p + length src \<le> length buf
      then Some (take p buf @ src @ drop (p + length src) buf) else None)"

text \<open>
  \<open>htons\<close> and \<open>htonl\<close> return a value whose bytes in memory are the argument in network
  byte order, whatever the host's own order; \<open>memcpy\<close> then copies exactly these bytes.
  The model identifies the converted value with its bytes in memory, most significant
  first, so that it does not depend on the host. \<open>ntohs\<close> and \<open>ntohl\<close> are the way back.
\<close>

definition htons :: "u16 \<Rightarrow> u8 list" where
  "htons v = [ucast (drop_bit 8 v), ucast v]"

definition htonl :: "u32 \<Rightarrow> u8 list" where
  "htonl v = [ucast (drop_bit 24 v), ucast (drop_bit 16 v), ucast (drop_bit 8 v), ucast v]"

fun ntohs :: "u8 list \<Rightarrow> u16" where
  "ntohs [b0, b1] = push_bit 8 (ucast b0) OR ucast b1"
| "ntohs _ = 0"

fun ntohl :: "u8 list \<Rightarrow> u32" where
  "ntohl [b0, b1, b2, b3] =
     push_bit 24 (ucast b0) OR push_bit 16 (ucast b1) OR push_bit 8 (ucast b2) OR ucast b3"
| "ntohl _ = 0"

section \<open>The codec (wire\_codec.c)\<close>

text \<open>
  Every function takes the buffer and the index its pointer argument points at. A writer
  returns the updated buffer and the C return value; a reader returns the C return value
  and the value stored through its output pointer.
\<close>

definition write_u16 :: "u8 list \<Rightarrow> nat \<Rightarrow> u16 \<Rightarrow> (u8 list \<times> int) option" where
  "write_u16 buf p val = do {
     let net = htons val;
     buf \<leftarrow> memcpy_to buf p net;
     Some (buf, 2)
   }"

definition write_u32 :: "u8 list \<Rightarrow> nat \<Rightarrow> u32 \<Rightarrow> (u8 list \<times> int) option" where
  "write_u32 buf p val = do {
     let net = htonl val;
     buf \<leftarrow> memcpy_to buf p net;
     Some (buf, 4)
   }"

definition write_i64 :: "u8 list \<Rightarrow> nat \<Rightarrow> i64 \<Rightarrow> (u8 list \<times> int) option" where
  "write_i64 buf p val = do {
     let high = (ucast (signed_drop_bit 32 val AND 0xFFFFFFFF) :: u32);
     let low = (ucast (val AND 0xFFFFFFFF) :: u32);
     let offset = (0 :: int);
     (buf, n) \<leftarrow> write_u32 buf (p + nat offset) high;
     let offset = offset + n;
     (buf, n) \<leftarrow> write_u32 buf (p + nat offset) low;
     let offset = offset + n;
     Some (buf, offset)
   }"

definition read_u16 :: "u8 list \<Rightarrow> nat \<Rightarrow> (int \<times> u16) option" where
  "read_u16 buf p = do {
     net \<leftarrow> memcpy_from buf p 2;
     Some (2, ntohs net)
   }"

definition read_u32 :: "u8 list \<Rightarrow> nat \<Rightarrow> (int \<times> u32) option" where
  "read_u32 buf p = do {
     net \<leftarrow> memcpy_from buf p 4;
     Some (4, ntohl net)
   }"

definition read_i64 :: "u8 list \<Rightarrow> nat \<Rightarrow> (int \<times> i64) option" where
  "read_i64 buf p = do {
     let offset = (0 :: int);
     (n, high) \<leftarrow> read_u32 buf (p + nat offset);
     let offset = offset + n;
     (n, low) \<leftarrow> read_u32 buf (p + nat offset);
     let offset = offset + n;
     Some (offset, push_bit 32 (ucast high) OR ucast low)
   }"

definition write_header :: "u8 list \<Rightarrow> nat \<Rightarrow> Header \<Rightarrow> (u8 list \<times> int) option" where
  "write_header buf p h = do {
     let offset = (0 :: int);
     (buf, n) \<leftarrow> write_u16 buf (p + nat offset) (version h);
     let offset = offset + n;
     (buf, n) \<leftarrow> write_u16 buf (p + nat offset) (opCode h);
     let offset = offset + n;
     (buf, n) \<leftarrow> write_u32 buf (p + nat offset) (requestId h);
     let offset = offset + n;
     (buf, n) \<leftarrow> write_u32 buf (p + nat offset) (flags h);
     let offset = offset + n;
     (buf, n) \<leftarrow> write_u32 buf (p + nat offset) (payloadLen h);
     let offset = offset + n;
     Some (buf, offset)
   }"

definition read_header :: "u8 list \<Rightarrow> nat \<Rightarrow> (int \<times> Header) option" where
  "read_header buf p = do {
     let offset = (0 :: int);
     (n, v) \<leftarrow> read_u16 buf (p + nat offset);
     let offset = offset + n;
     (n, opc) \<leftarrow> read_u16 buf (p + nat offset);
     let offset = offset + n;
     (n, rid) \<leftarrow> read_u32 buf (p + nat offset);
     let offset = offset + n;
     (n, fl) \<leftarrow> read_u32 buf (p + nat offset);
     let offset = offset + n;
     (n, plen) \<leftarrow> read_u32 buf (p + nat offset);
     let offset = offset + n;
     Some (offset, \<lparr>version = v, opCode = opc, requestId = rid, flags = fl, payloadLen = plen\<rparr>)
   }"

text \<open>
  A C string argument is the list of its bytes before the terminating NUL, so \<open>strlen\<close>
  is its length. \<open>write_string\<close> clamps the length, writes it as the prefix and copies
  that many bytes; \<open>offset += len\<close> adds a \<open>size_t\<close> of at most 65535 to an \<open>int\<close>.
\<close>

definition strlen :: "u8 list \<Rightarrow> nat" where
  "strlen str = length str"

definition write_string :: "u8 list \<Rightarrow> nat \<Rightarrow> u8 list \<Rightarrow> (u8 list \<times> int) option" where
  "write_string buf p str = do {
     let len = strlen str;
     let len = (if len > 0xFFFF then 0xFFFF else len);
     let offset = (0 :: int);
     (buf, n) \<leftarrow> write_u16 buf (p + nat offset) (of_nat len);
     let offset = offset + n;
     buf \<leftarrow> memcpy_to buf (p + nat offset) (take len str);
     let offset = offset + int len;
     Some (buf, offset)
   }"

text \<open>
  \<open>read_string\<close> writes through \<open>out\<close>, an array of the caller, and is given its capacity
  \<open>max_len\<close>. It returns \<open>-1\<close> and leaves \<open>out\<close> alone when the declared length does not
  leave room for the terminator; otherwise it copies the bytes and terminates them. The
  result is the new content of \<open>out\<close> with the return value.
\<close>

definition read_string :: "u8 list \<Rightarrow> nat \<Rightarrow> u8 list \<Rightarrow> nat \<Rightarrow> (u8 list \<times> int) option" where
  "read_string buf p out max_len = do {
     let offset = (0 :: int);
     (n, len) \<leftarrow> read_u16 buf (p + nat offset);
     let offset = offset + n;
     if unat len \<ge> max_len then Some (out, -1)
     else do {
       bytes \<leftarrow> memcpy_from buf (p + nat offset) (unat len);
       out \<leftarrow> memcpy_to out 0 bytes;
       out \<leftarrow> memcpy_to out (unat len) [0];
       let offset = offset + int (unat len);
       Some (out, offset)
     }
   }"

text \<open>The C string held by an array: its bytes before the first NUL.\<close>

definition c_str :: "u8 list \<Rightarrow> u8 list" where
  "c_str out = takeWhile (\<lambda>b. b \<noteq> 0) out"


section \<open>The invocation engine (client\_main.c)\<close>

definition MAX_DGRAM_SIZE :: nat where "MAX_DGRAM_SIZE = 65536"

definition INT_MAX :: int where "INT_MAX = 2147483647"
definition INT_MIN :: int where "INT_MIN = - 2147483648"

text \<open>
  Arithmetic on the C \<open>int\<close>s of the retry loop. A signed addition whose result is not
  an \<open>int\<close> is undefined in C: it has no value here. Division and remainder truncate
  towards zero.
\<close>

definition int_add :: "int \<Rightarrow> int \<Rightarrow> int option" where
  "int_add a b = (if INT_MIN \<le> a + b \<and> a + b \<le> INT_MAX then Some (a + b) else None)"

definition c_div :: "int \<Rightarrow> int \<Rightarrow> int" where
  "c_div a b = sgn a * sgn b * (\<bar>a\<bar> div \<bar>b\<bar>)"

definition c_mod :: "int \<Rightarrow> int \<Rightarrow> int" where
  "c_mod a b = a - b * c_div a b"

text \<open>\<open>++g_request_id\<close>: the value returned and the new value of the global counter.\<close>

definition next_request_id :: "u32 \<Rightarrow> u32 \<times> u32" where
  "next_request_id g_request_id = (g_request_id + 1, g_request_id + 1)"

text \<open>
  What a run does to the outside world, in order: the datagrams handed to \<open>sendto\<close> and
  the lines printed, each with the format string of the source (without its newline) and
  the values formatted into it.
\<close>

datatype arg = Arg_int int | Arg_u16 u16 | Arg_u32 u32 | Arg_i64 i64 | Arg_str "u8 list"

datatype effect =
    Sendto "u8 list"
  | Perror string
  | Stdout string "arg list"
  | Stderr string "arg list"

text \<open>
  The socket is a parameter: for each attempt of the retry loop (numbered from 0) it
  says what \<open>sendto\<close> returns for the datagram, what \<open>select\<close> returns for the timeout,
  and what \<open>recvfrom\<close> delivers: a datagram, or \<open>None\<close> when it returns a negative value.
\<close>

record transport =
  sendto :: "nat \<Rightarrow> u8 list \<Rightarrow> int"
  select :: "nat \<Rightarrow> int \<times> int \<Rightarrow> int"
  recvfrom :: "nat \<Rightarrow> u8 list option"

text \<open>
  The value of a call of \<open>udp_invoke\<close>: the \<open>int\<close> it returns, or that the run met a
  signed overflow (\<open>attempt++\<close>, \<open>attempt + 1\<close> or \<open>max_retries + 1\<close> beyond \<open>INT_MAX\<close>),
  after which C defines no behaviour.
\<close>

datatype retval = Returns int | Signed_overflow

text \<open>
  The \<open>for\<close> loop of \<open>udp_invoke\<close> from a value of \<open>attempt\<close> on, with the effects so far.
  The pair \<open>request, req_len\<close> is the list of the \<open>req_len\<close> bytes to send; the pair
  \<open>response, resp_max\<close> is the list of the \<open>resp_max\<close> bytes that \<open>recvfrom\<close> may fill.
  A received datagram overwrites the front of \<open>response\<close>, cut to \<open>resp_max\<close> bytes, and
  its length is returned. The result is the return value, the content of \<open>response\<close> and
  the effects.
\<close>

function udp_invoke_loop ::
  "transport \<Rightarrow> u8 list \<Rightarrow> u8 list \<Rightarrow> int \<Rightarrow> int \<Rightarrow> int \<Rightarrow> effect list
   \<Rightarrow> retval \<times> u8 list \<times> effect list" where
  "udp_invoke_loop sock request response timeout_ms max_retries attempt log =
     (if attempt \<le> max_retries then
        let sent = sendto sock (nat attempt) request;
            log = log @ [Sendto request]
        in if sent < 0 then
             let log = log @ [Perror ''sendto failed'']
             in (case int_add attempt 1 of
                   None \<Rightarrow> (Signed_overflow, response, log)
                 | Some attempt' \<Rightarrow>
                     udp_invoke_loop sock request response timeout_ms max_retries attempt' log)
           else
             let tv = (c_div timeout_ms 1000, c_mod timeout_ms 1000 * 1000);
                 sel = select sock (nat attempt) tv
             in if sel < 0 then (Returns (- 1), response, log @ [Perror ''select failed''])
                else if sel = 0 then
                  (case (int_add attempt 1, int_add max_retries 1) of
                     (Some a1, Some m1) \<Rightarrow>
                       let log = log @ [Stdout ''[retry %d/%d] timeout, retrying...'' [Arg_int a1, Arg_int m1]]
                       in (case int_add attempt 1 of
                             None \<Rightarrow> (Signed_overflow, response, log)
                           | Some attempt' \<Rightarrow>
                               udp_invoke_loop sock request response timeout_ms max_retries attempt' log)
                   | _ \<Rightarrow> (Signed_overflow, response, log))
                else
                  (case recvfrom sock (nat attempt) of
                     None \<Rightarrow> (Returns (- 1), response, log @ [Perror ''recvfrom failed''])
                   | Some dgram \<Rightarrow>
                       let recv_len = min (length dgram) (length response)
                       in (Returns (int recv_len),
                           take recv_len dgram @ drop recv_len response, log))
      else
        (case int_add max_retries 1 of
           None \<Rightarrow> (Signed_overflow, response, log)
         | Some m1 \<Rightarrow> (Returns (- 1), response, log @ [Stderr ''Failed after %d retries'' [Arg_int m1]])))"
  by pat_completeness auto
termination
  by (relation "measure (\<lambda>(sock, request, response, timeout_ms, max_retries, attempt, log).
                           nat (max_retries + 1 - attempt))")
     (auto simp: int_add_def split: if_splits)

declare udp_invoke_loop.simps [simp del]

definition udp_invoke ::
  "transport \<Rightarrow> u8 list \<Rightarrow> u8 list \<Rightarrow> int \<Rightarrow> int \<Rightarrow> retval \<times> u8 list \<times> effect list" where
  "udp_invoke sock request response timeout_ms max_retries =
     udp_invoke_loop sock request response timeout_ms max_retries 0 []"

text \<open>The datagrams handed to \<open>sendto\<close> in a list of effects, in order.\<close>

fun sent_datagrams :: "effect list \<Rightarrow> u8 list list" where
  "sent_datagrams [] = []"
| "sent_datagrams (Sendto d # es) = d # sent_datagrams es"
| "sent_datagrams (e # es) = sent_datagrams es"

section \<open>The commands (client\_main.c)\<close>

text \<open>
  Each command is modelled in the three steps of its body: building the request in
  \<open>req_buf\<close> (the value is the buffer, the final \<open>offset\<close> and the new request counter),
  the call of \<open>udp_invoke\<close>, and reading the response from \<open>resp_buf\<close> (the value is the
  lines printed). \<open>req_buf\<close> and \<open>resp_buf\<close> are local arrays of \<open>MAX_DGRAM_SIZE\<close> bytes
  that the source does not initialise: their first content is a parameter. The C flag
  \<open>at_most_once\<close> is an \<open>int\<close>, true when it is not 0.
\<close>

subsection \<open>query\<close>

definition cmd_query_request ::
  "u8 list \<Rightarrow> u8 list \<Rightarrow> int \<Rightarrow> u32 \<Rightarrow> (u8 list \<times> int \<times> u32) option" where
  "cmd_query_request req_buf facility at_most_once g_request_id = do {
     let day_start = (1728518400000 :: i64);
     let day_end = day_start + 86400000;
     let offset = HEADER_LEN;
     (req_buf, n) \<leftarrow> write_string req_buf (nat offset) facility;
     let offset = offset + n;
     (req_buf, n) \<leftarrow> write_i64 req_buf (nat offset) day_start;
     let offset = offset + n;
     (req_buf, n) \<leftarrow> write_i64 req_buf (nat offset) day_end;
     let offset = offset + n;
     let payload_len = offset - HEADER_LEN;
     let (rid, g_request_id) = next_request_id g_request_id;
     let hdr = \<lparr>version = PROTOCOL_VERSION, opCode = OP_QUERY_AVAIL, requestId = rid,
                flags = (if at_most_once \<noteq> 0 then FLAG_AT_MOST_ONCE else 0),
                payloadLen = of_int payload_len\<rparr>;
     (req_buf, n) \<leftarrow> write_header req_buf 0 hdr;
     Some (req_buf, offset, g_request_id)
   }"

text \<open>The loop over the intervals of a response, \<open>k\<close> of them left, reading at \<open>pos\<close>.\<close>

fun query_intervals :: "u8 list \<Rightarrow> int \<Rightarrow> nat \<Rightarrow> effect list option" where
  "query_intervals resp_buf pos 0 = Some []"
| "query_intervals resp_buf pos (Suc k) = do {
     (n, start) \<leftarrow> read_i64 resp_buf (nat pos);
     let pos = pos + n;
     (n, end) \<leftarrow> read_i64 resp_buf (nat pos);
     let pos = pos + n;
     rest \<leftarrow> query_intervals resp_buf pos k;
     Some (Stdout ''  [%lld, %lld]'' [Arg_i64 start, Arg_i64 end] # rest)
   }"

definition cmd_query_response :: "u8 list \<Rightarrow> effect list option" where
  "cmd_query_response resp_buf = do {
     (n, resp_hdr) \<leftarrow> read_header resp_buf 0;
     if opCode resp_hdr AND OP_ERROR_MASK \<noteq> 0 then Some [Stderr ''Server error response'' []]
     else do {
       let pos = HEADER_LEN;
       (n, count) \<leftarrow> read_u16 resp_buf (nat pos);
       let pos = pos + n;
       rest \<leftarrow> query_intervals resp_buf pos (unat count);
       Some (Stdout ''Available intervals: %u'' [Arg_u16 count] # rest)
     }
   }"

definition cmd_query ::
  "transport \<Rightarrow> u8 list \<Rightarrow> u8 list \<Rightarrow> u8 list \<Rightarrow> u8 list \<Rightarrow> int \<Rightarrow> int \<Rightarrow> int \<Rightarrow> u32
   \<Rightarrow> (effect list \<times> u32) option" where
  "cmd_query sock req_buf resp_buf facility date_str timeout_ms retries at_most_once g_request_id = do {
     (req_buf, offset, g_request_id) \<leftarrow> cmd_query_request req_buf facility at_most_once g_request_id;
     let (resp_len, resp_buf, log) =
           udp_invoke sock (take (nat offset) req_buf) resp_buf timeout_ms retries;
     case resp_len of
       Signed_overflow \<Rightarrow> None
     | Returns resp_len \<Rightarrow>
         if resp_len < 0 then Some (log @ [Stderr ''Query failed'' []], g_request_id)
         else do {
           out \<leftarrow> cmd_query_response resp_buf;
           Some (log @ out, g_request_id)
         }
   }"

subsection \<open>book\<close>

definition cmd_book_request ::
  "u8 list \<Rightarrow> u8 list \<Rightarrow> u8 list \<Rightarrow> i64 \<Rightarrow> i64 \<Rightarrow> int \<Rightarrow> u32 \<Rightarrow> (u8 list \<times> int \<times> u32) option" where
  "cmd_book_request req_buf facility user start_ms end_ms at_most_once g_request_id = do {
     let offset = HEADER_LEN;
     (req_buf, n) \<leftarrow> write_string req_buf (nat offset) facility;
     let offset = offset + n;
     (req_buf, n) \<leftarrow> write_string req_buf (nat offset) user;
     let offset = offset + n;
     (req_buf, n) \<leftarrow> write_i64 req_buf (nat offset) start_ms;
     let offset = offset + n;
     (req_buf, n) \<leftarrow> write_i64 req_buf (nat offset) end_ms;
     let offset = offset + n;
     let payload_len = offset - HEADER_LEN;
     let (rid, g_request_id) = next_request_id g_request_id;
     let hdr = \<lparr>version = PROTOCOL_VERSION, opCode = OP_BOOK, requestId = rid,
                flags = (if at_most_once \<noteq> 0 then FLAG_AT_MOST_ONCE else 0),
                payloadLen = of_int payload_len\<rparr>;
     (req_buf, n) \<leftarrow> write_header req_buf 0 hdr;
     Some (req_buf, offset, g_request_id)
   }"

definition cmd_book_response :: "u8 list \<Rightarrow> effect list option" where
  "cmd_book_response resp_buf = do {
     (n, resp_hdr) \<leftarrow> read_header resp_buf 0;
     if opCode resp_hdr AND OP_ERROR_MASK \<noteq> 0 then Some [Stderr ''Server error response'' []]
     else do {
       (n, booking_id) \<leftarrow> read_i64 resp_buf (nat HEADER_LEN);
       Some [Stdout ''Booking created: id=%lld'' [Arg_i64 booking_id]]
     }
   }"

definition cmd_book ::
  "transport \<Rightarrow> u8 list \<Rightarrow> u8 list \<Rightarrow> u8 list \<Rightarrow> u8 list \<Rightarrow> i64 \<Rightarrow> i64 \<Rightarrow> int \<Rightarrow> int \<Rightarrow> int \<Rightarrow> u32
   \<Rightarrow> (effect list \<times> u32) option" where
  "cmd_book sock req_buf resp_buf facility user start_ms end_ms timeout_ms retries at_most_once
     g_request_id = do {
     (req_buf, offset, g_request_id) \<leftarrow>
       cmd_book_request req_buf facility user start_ms end_ms at_most_once g_request_id;
     let (resp_len, resp_buf, log) =
           udp_invoke sock (take (nat offset) req_buf) resp_buf timeout_ms retries;
     case resp_len of
       Signed_overflow \<Rightarrow> None
     | Returns resp_len \<Rightarrow>
         if resp_len < 0 then Some (log @ [Stderr ''Book failed'' []], g_request_id)
         else do {
           out \<leftarrow> cmd_book_response resp_buf;
           Some (log @ out, g_request_id)
         }
   }"

subsection \<open>custom-incr\<close>

definition cmd_custom_incr_request ::
  "u8 list \<Rightarrow> u8 list \<Rightarrow> int \<Rightarrow> u32 \<Rightarrow> (u8 list \<times> int \<times> u32) option" where
  "cmd_custom_incr_request req_buf facility at_most_once g_request_id = do {
     let offset = HEADER_LEN;
     (req_buf, n) \<leftarrow> write_string req_buf (nat offset) facility;
     let offset = offset + n;
     let payload_len = offset - HEADER_LEN;
     let (rid, g_request_id) = next_request_id g_request_id;
     let hdr = \<lparr>version = PROTOCOL_VERSION, opCode = OP_CUSTOM_NON_IDEMPOTENT, requestId = rid,
                flags = (if at_most_once \<noteq> 0 then FLAG_AT_MOST_ONCE else 0),
                payloadLen = of_int payload_len\<rparr>;
     (req_buf, n) \<leftarrow> write_header req_buf 0 hdr;
     Some (req_buf, offset, g_request_id)
   }"

definition cmd_custom_incr_response :: "u8 list \<Rightarrow> u8 list \<Rightarrow> effect list option" where
  "cmd_custom_incr_response resp_buf facility = do {
     (n, resp_hdr) \<leftarrow> read_header resp_buf 0;
     if opCode resp_hdr AND OP_ERROR_MASK \<noteq> 0 then Some [Stderr ''Server error response'' []]
     else do {
       (n, usage_count) \<leftarrow> read_i64 resp_buf (nat HEADER_LEN);
       Some [Stdout ''Usage counter for facility=%s => %lld'' [Arg_str facility, Arg_i64 usage_count]]
     }
   }"

definition cmd_custom_incr ::
  "transport \<Rightarrow> u8 list \<Rightarrow> u8 list \<Rightarrow> u8 list \<Rightarrow> int \<Rightarrow> int \<Rightarrow> int \<Rightarrow> u32
   \<Rightarrow> (effect list \<times> u32) option" where
  "cmd_custom_incr sock req_buf resp_buf facility timeout_ms retries at_most_once g_request_id = do {
     (req_buf, offset, g_request_id) \<leftarrow>
       cmd_custom_incr_request req_buf facility at_most_once g_request_id;
     let (resp_len, resp_buf, log) =
           udp_invoke sock (take (nat offset) req_buf) resp_buf timeout_ms retries;
     case resp_len of
       Signed_overflow \<Rightarrow> None
     | Returns resp_len \<Rightarrow>
         if resp_len < 0 then Some (log @ [Stderr ''Usage counter increment failed'' []], g_request_id)
         else do {
           out \<leftarrow> cmd_custom_incr_response resp_buf facility;
           Some (log @ out, g_request_id)
         }
   }"

subsection \<open>change\<close>

text \<open>
  \<open>cmd_change\<close> drops the return values of the writers and advances \<open>offset\<close> by the
  constants 8 and 4; \<open>(uint32_t)offset_minutes\<close> is the \<open>int\<close> modulo \<open>2^32\<close>.
\<close>

definition cmd_change_request ::
  "u8 list \<Rightarrow> i64 \<Rightarrow> int \<Rightarrow> int \<Rightarrow> u32 \<Rightarrow> (u8 list \<times> int \<times> u32) option" where
  "cmd_change_request req_buf booking_id offset_minutes at_most_once g_request_id = do {
     let offset = HEADER_LEN;
     (req_buf, n) \<leftarrow> write_i64 req_buf (nat offset) booking_id;
     let offset = offset + 8;
     (req_buf, n) \<leftarrow> write_u32 req_buf (nat offset) (of_int offset_minutes);
     let offset = offset + 4;
     let payload_len = offset - HEADER_LEN;
     let (rid, g_request_id) = next_request_id g_request_id;
     let hdr = \<lparr>version = PROTOCOL_VERSION, opCode = OP_CHANGE_BOOKING, requestId = rid,
                flags = (if at_most_once \<noteq> 0 then FLAG_AT_MOST_ONCE else 0),
                payloadLen = of_int payload_len\<rparr>;
     (req_buf, n) \<leftarrow> write_header req_buf 0 hdr;
     Some (req_buf, offset, g_request_id)
   }"

definition cmd_change_response :: "u8 list \<Rightarrow> effect list option" where
  "cmd_change_response resp_buf = do {
     (n, resp_hdr) \<leftarrow> read_header resp_buf 0;
     if opCode resp_hdr AND OP_ERROR_MASK \<noteq> 0 then Some [Stderr ''Server error response'' []]
     else do {
       (n, new_start) \<leftarrow> read_i64 resp_buf (nat HEADER_LEN);
       (n, new_end) \<leftarrow> read_i64 resp_buf (nat (HEADER_LEN + 8));
       Some [Stdout ''Booking changed: new time [%lld, %lld]'' [Arg_i64 new_start, Arg_i64 new_end]]
     }
   }"

definition cmd_change ::
  "transport \<Rightarrow> u8 list \<Rightarrow> u8 list \<Rightarrow> i64 \<Rightarrow> int \<Rightarrow> int \<Rightarrow> int \<Rightarrow> int \<Rightarrow> u32
   \<Rightarrow> (effect list \<times> u32) option" where
  "cmd_change sock req_buf resp_buf booking_id offset_minutes timeout_ms retries at_most_once
     g_request_id = do {
     (req_buf, offset, g_request_id) \<leftarrow>
       cmd_change_request req_buf booking_id offset_minutes at_most_once g_request_id;
     let (resp_len, resp_buf, log) =
           udp_invoke sock (take (nat offset) req_buf) resp_buf timeout_ms retries;
     case resp_len of
       Signed_overflow \<Rightarrow> None
     | Returns resp_len \<Rightarrow>
         if resp_len < 0 then Some (log @ [Stderr ''Change booking failed'' []], g_request_id)
         else do {
           out \<leftarrow> cmd_change_response resp_buf;
           Some (log @ out, g_request_id)
         }
   }"

subsection \<open>monitor\<close>

definition cmd_monitor_request ::
  "u8 list \<Rightarrow> u8 list \<Rightarrow> u32 \<Rightarrow> u32 \<Rightarrow> int \<Rightarrow> u32 \<Rightarrow> (u8 list \<times> int \<times> u32) option" where
  "cmd_monitor_request req_buf facility duration_seconds callback_port at_most_once g_request_id = do {
     let offset = HEADER_LEN;
     (req_buf, n) \<leftarrow> write_string req_buf (nat offset) facility;
     let offset = offset + n;
     (req_buf, n) \<leftarrow> write_u32 req_buf (nat offset) duration_seconds;
     let offset = offset + 4;
     (req_buf, n) \<leftarrow> write_u32 req_buf (nat offset) callback_port;
     let offset = offset + 4;
     let payload_len = offset - HEADER_LEN;
     let (rid, g_request_id) = next_request_id g_request_id;
     let hdr = \<lparr>version = PROTOCOL_VERSION, opCode = OP_MONITOR, requestId = rid,
                flags = (if at_most_once \<noteq> 0 then FLAG_AT_MOST_ONCE else 0),
                payloadLen = of_int payload_len\<rparr>;
     (req_buf, n) \<leftarrow> write_header req_buf 0 hdr;
     Some (req_buf, offset, g_request_id)
   }"

text \<open>
  The response of a registration, up to the two lines printed when it is accepted. The
  listener that the source starts after them (a second socket, \<open>bind\<close>, the line
  \<open>Waiting for callbacks\<close>, an endless receive loop) is not modelled as a whole, so
  \<open>cmd_monitor\<close> below ends where the listener begins; \<open>monitor_callback\<close> is the body
  of the loop for one datagram received into \<open>callback_buf\<close>.
\<close>

definition cmd_monitor_response :: "u8 list \<Rightarrow> u8 list \<Rightarrow> u32 \<Rightarrow> u32 \<Rightarrow> effect list option" where
  "cmd_monitor_response resp_buf facility duration_seconds callback_port = do {
     (n, resp_hdr) \<leftarrow> read_header resp_buf 0;
     if opCode resp_hdr AND OP_ERROR_MASK \<noteq> 0 then Some [Stderr ''Server error response'' []]
     else do {
       (n, ok) \<leftarrow> read_u16 resp_buf (nat HEADER_LEN);
       if ok = 1 then
         Some [Stdout ''Monitor registered for facility=%s, duration=%u seconds, callback port=%u''
                 [Arg_str facility, Arg_u32 duration_seconds, Arg_u32 callback_port],
               Stdout ''Listening for callbacks on port %u...'' [Arg_u32 callback_port]]
       else Some [Stderr ''Monitor registration failed (ok=%u)'' [Arg_u16 ok]]
     }
   }"

definition cmd_monitor ::
  "transport \<Rightarrow> u8 list \<Rightarrow> u8 list \<Rightarrow> u8 list \<Rightarrow> u32 \<Rightarrow> u32 \<Rightarrow> int \<Rightarrow> int \<Rightarrow> int \<Rightarrow> u32
   \<Rightarrow> (effect list \<times> u32) option" where
  "cmd_monitor sock req_buf resp_buf facility duration_seconds callback_port timeout_ms retries
     at_most_once g_request_id = do {
     (req_buf, offset, g_request_id) \<leftarrow>
       cmd_monitor_request req_buf facility duration_seconds callback_port at_most_once g_request_id;
     let (resp_len, resp_buf, log) =
           udp_invoke sock (take (nat offset) req_buf) resp_buf timeout_ms retries;
     case resp_len of
       Signed_overflow \<Rightarrow> None
     | Returns resp_len \<Rightarrow>
         if resp_len < 0 then Some (log @ [Stderr ''Monitor registration failed'' []], g_request_id)
         else do {
           out \<leftarrow> cmd_monitor_response resp_buf facility duration_seconds callback_port;
           Some (log @ out, g_request_id)
         }
   }"

fun callback_intervals :: "u8 list \<Rightarrow> int \<Rightarrow> nat \<Rightarrow> effect list option" where
  "callback_intervals callback_buf offset_cb 0 = Some []"
| "callback_intervals callback_buf offset_cb (Suc k) = do {
     (n, start) \<leftarrow> read_i64 callback_buf (nat offset_cb);
     let offset_cb = offset_cb + 8;
     (n, end) \<leftarrow> read_i64 callback_buf (nat offset_cb);
     let offset_cb = offset_cb + 8;
     rest \<leftarrow> callback_intervals callback_buf offset_cb k;
     Some (Stdout ''  [%lld, %lld]'' [Arg_i64 start, Arg_i64 end] # rest)
   }"

definition monitor_callback :: "u8 list \<Rightarrow> effect list option" where
  "monitor_callback callback_buf = do {
     (n, cb_hdr) \<leftarrow> read_header callback_buf 0;
     let log = [Stdout ''=== Callback received ==='' [],
                Stdout ''OpCode: 0x%04x, RequestId: %u, Flags: 0x%x''
                  [Arg_u16 (opCode cb_hdr), Arg_u32 (requestId cb_hdr), Arg_u32 (flags cb_hdr)]];
     log \<leftarrow> (if opCode cb_hdr = OP_QUERY_AVAIL then do {
                (n, count) \<leftarrow> read_u16 callback_buf (nat HEADER_LEN);
                let offset_cb = HEADER_LEN + 2;
                rest \<leftarrow> callback_intervals callback_buf offset_cb (unat count);
                Some (log @ Stdout ''Facility availability updated: %u intervals'' [Arg_u16 count] # rest)
              } else Some log);
     Some (log @ [Stdout ''========================'' []])
   }"

subsection \<open>reset\<close>

definition cmd_reset_request ::
  "u8 list \<Rightarrow> u8 list \<Rightarrow> i64 \<Rightarrow> i64 \<Rightarrow> int \<Rightarrow> u32 \<Rightarrow> (u8 list \<times> int \<times> u32) option" where
  "cmd_reset_request req_buf facility day_start day_end at_most_once g_request_id = do {
     let offset = HEADER_LEN;
     (req_buf, n) \<leftarrow> write_string req_buf (nat offset) facility;
     let offset = offset + n;
     (req_buf, n) \<leftarrow> write_i64 req_buf (nat offset) day_start;
     let offset = offset + 8;
     (req_buf, n) \<leftarrow> write_i64 req_buf (nat offset) day_end;
     let offset = offset + 8;
     let payload_len = offset - HEADER_LEN;
     let (rid, g_request_id) = next_request_id g_request_id;
     let hdr = \<lparr>version = PROTOCOL_VERSION, opCode = OP_CUSTOM_IDEMPOTENT, requestId = rid,
                flags = (if at_most_once \<noteq> 0 then FLAG_AT_MOST_ONCE else 0),
                payloadLen = of_int payload_len\<rparr>;
     (req_buf, n) \<leftarrow> write_header req_buf 0 hdr;
     Some (req_buf, offset, g_request_id)
   }"

definition cmd_reset_response :: "u8 list \<Rightarrow> u8 list \<Rightarrow> effect list option" where
  "cmd_reset_response resp_buf facility = do {
     (n, resp_hdr) \<leftarrow> read_header resp_buf 0;
     if opCode resp_hdr AND OP_ERROR_MASK \<noteq> 0 then Some [Stderr ''Server error response'' []]
     else do {
       (n, removed_count) \<leftarrow> read_u32 resp_buf (nat HEADER_LEN);
       Some [Stdout ''Schedule reset for facility=%s: %u booking(s) removed''
               [Arg_str facility, Arg_u32 removed_count]]
     }
   }"

definition cmd_reset ::
  "transport \<Rightarrow> u8 list \<Rightarrow> u8 list \<Rightarrow> u8 list \<Rightarrow> i64 \<Rightarrow> i64 \<Rightarrow> int \<Rightarrow> int \<Rightarrow> int \<Rightarrow> u32
   \<Rightarrow> (effect list \<times> u32) option" where
  "cmd_reset sock req_buf resp_buf facility day_start day_end timeout_ms retries at_most_once
     g_request_id = do {
     (req_buf, offset, g_request_id) \<leftarrow>
       cmd_reset_request req_buf facility day_start day_end at_most_once g_request_id;
     let (resp_len, resp_buf, log) =
           udp_invoke sock (take (nat offset) req_buf) resp_buf timeout_ms retries;
     case resp_len of
       Signed_overflow \<Rightarrow> None
     | Returns resp_len \<Rightarrow>
         if resp_len < 0 then Some (log @ [Stderr ''Schedule reset failed'' []], g_request_id)
         else do {
           out \<leftarrow> cmd_reset_response resp_buf facility;
           Some (log @ out, g_request_id)
         }
   }"

section \<open>The wire layout as the specification words it\<close>

text \<open>
  Big-endian bytes of a number, by division: the most significant byte first, each byte
  a digit in base 256.
\<close>

definition be16 :: "nat \<Rightarrow> u8 list" where
  "be16 n = [of_nat (n div 256 mod 256), of_nat (n mod 256)]"

definition be32 :: "nat \<Rightarrow> u8 list" where
  "be32 n = [of_nat (n div 16777216 mod 256), of_nat (n div 65536 mod 256),
             of_nat (n div 256 mod 256), of_nat (n mod 256)]"

text \<open>Header: the five fields in order, nothing between them.\<close>

definition wire_header :: "Header \<Rightarrow> u8 list" where
  "wire_header h =
     be16 (unat (version h)) @ be16 (unat (opCode h)) @ be32 (unat (requestId h)) @
     be32 (unat (flags h)) @ be32 (unat (payloadLen h))"

text \<open>64-bit integer: two 32-bit halves of its two's complement, high word first.\<close>

definition wire_i64 :: "i64 \<Rightarrow> u8 list" where
  "wire_i64 v = be32 (unat v div 2 ^ 32) @ be32 (unat v mod 2 ^ 32)"

text \<open>String: the 16-bit count of bytes, then the bytes; the count is at most 65535.\<close>

definition wire_string :: "u8 list \<Rightarrow> u8 list" where
  "wire_string s = be16 (min (length s) 65535) @ take (min (length s) 65535) s"

text \<open>
  The payload of each request, field by field in the order of the operation table:
  strings, 64-bit and 32-bit integers in the layouts above. \<open>query\<close> sends the fixed
  range that \<open>cmd_query\<close> uses; \<open>change\<close> sends \<open>offset_minutes\<close> as a 32-bit unsigned
  value.
\<close>

definition query_payload :: "u8 list \<Rightarrow> u8 list" where
  "query_payload facility =
     wire_string facility @ wire_i64 1728518400000 @ wire_i64 1728604800000"

definition book_payload :: "u8 list \<Rightarrow> u8 list \<Rightarrow> i64 \<Rightarrow> i64 \<Rightarrow> u8 list" where
  "book_payload facility user start_ms end_ms =
     wire_string facility @ wire_string user @ wire_i64 start_ms @ wire_i64 end_ms"

definition custom_incr_payload :: "u8 list \<Rightarrow> u8 list" where
  "custom_incr_payload facility = wire_string facility"

definition change_payload :: "i64 \<Rightarrow> int \<Rightarrow> u8 list" where
  "change_payload booking_id offset_minutes =
     wire_i64 booking_id @ be32 (nat (offset_minutes mod 2 ^ 32))"

definition monitor_payload :: "u8 list \<Rightarrow> u32 \<Rightarrow> u32 \<Rightarrow> u8 list" where
  "monitor_payload facility duration_seconds callback_port =
     wire_string facility @ be32 (unat duration_seconds) @ be32 (unat callback_port)"

definition reset_payload :: "u8 list \<Rightarrow> i64 \<Rightarrow> i64 \<Rightarrow> u8 list" where
  "reset_payload facility day_start day_end =
     wire_string facility @ wire_i64 day_start @ wire_i64 day_end"

text \<open>
  The framing of a request held in \<open>req_buf\<close> and passed to \<open>udp_invoke\<close> with length
  \<open>offset\<close>: its first \<open>offset\<close> bytes are a header followed by exactly the bytes of the
  payload, the header's \<open>payloadLen\<close> is the number of those bytes, and \<open>offset\<close> is 16
  more.
\<close>

definition framed :: "u8 list \<Rightarrow> int \<Rightarrow> u8 list \<Rightarrow> bool" where
  "framed req_buf offset payload =
     (case read_header req_buf 0 of
        None \<Rightarrow> False
      | Some (n, h) \<Rightarrow>
          take (nat offset) req_buf = wire_header h @ payload \<and>
          unat (payloadLen h) = length payload \<and>
          offset = HEADER_LEN + int (unat (payloadLen h)))"

text \<open>
  What the six request builders have in common, used to state what each computes: the
  header they fill in for a payload of \<open>n\<close> bytes, and the buffer, length and counter
  they return when header and payload fit the buffer.
\<close>

definition request_header :: "u16 \<Rightarrow> u32 \<Rightarrow> int \<Rightarrow> nat \<Rightarrow> Header" where
  "request_header op rid at_most_once n =
     \<lparr>version = 1, opCode = op, requestId = rid,
      flags = (if at_most_once \<noteq> 0 then 1 else 0), payloadLen = of_nat n\<rparr>"

definition request_built :: "u8 list \<Rightarrow> u16 \<Rightarrow> u32 \<Rightarrow> int \<Rightarrow> u8 list \<Rightarrow> (u8 list \<times> int \<times> u32) option" where
  "request_built req_buf op g at_most_once payload =
     (if 16 + length payload \<le> length req_buf
      then Some (wire_header (request_header op (g + 1) at_most_once (length payload)) @
                 payload @ drop (16 + length payload) req_buf,
                 16 + int (length payload), g + 1)
      else None)"


section \<open>Sockets and datagrams for the examples\<close>

text \<open>
  Three sockets on which every send succeeds: one whose \<open>select\<close> always times out, one
  whose \<open>select\<close> fails, one whose \<open>recvfrom\<close> fails; and one that times out on the first
  attempt and then delivers a given datagram.
\<close>

definition always_timeout :: transport where
  "always_timeout = \<lparr>sendto = \<lambda>k d. int (length d), select = \<lambda>k tv. 0, recvfrom = \<lambda>k. None\<rparr>"

definition select_fails :: transport where
  "select_fails = \<lparr>sendto = \<lambda>k d. int (length d), select = \<lambda>k tv. - 1, recvfrom = \<lambda>k. None\<rparr>"

definition recvfrom_fails :: transport where
  "recvfrom_fails = \<lparr>sendto = \<lambda>k d. int (length d), select = \<lambda>k tv. 1, recvfrom = \<lambda>k. None\<rparr>"

definition timeout_then :: "u8 list \<Rightarrow> transport" where
  "timeout_then dgram =
     \<lparr>sendto = \<lambda>k d. int (length d), select = \<lambda>k tv. (if k = 0 then 0 else 1),
      recvfrom = \<lambda>k. Some dgram\<rparr>"

text \<open>The strings \<open>"LabA"\<close> and \<open>"alice"\<close>, the defaults of \<open>main\<close>.\<close>

definition LabA :: "u8 list" where "LabA = [0x4C, 0x61, 0x62, 0x41]"


text \<open>
  Error responses to request 42 (opCode \<open>0x8001\<close>, two bytes of payload): error kind 1
  (conflict) and error kind 2 (not found).
\<close>

definition conflict_response :: "u8 list" where
  "conflict_response = [0, 1, 0x80, 1, 0, 0, 0, 42, 0, 0, 0, 0, 0, 0, 0, 2, 0, 1]"

definition not_found_response :: "u8 list" where
  "not_found_response = [0, 1, 0x80, 1, 0, 0, 0, 42, 0, 0, 0, 0, 0, 0, 0, 2, 0, 2]"

text \<open>
  A query response with one interval \<open>[1000, 2000]\<close>, once with version 2 and once with
  version 1 in its header, and a pushed notification (callback flag set, no interval)
  with version 9.
\<close>

definition version2_response :: "u8 list" where
  "version2_response =
     [0, 2, 0, 1, 0, 0, 0, 42, 0, 0, 0, 0, 0, 0, 0, 18,
      0, 1, 0, 0, 0, 0, 0, 0, 0x03, 0xE8, 0, 0, 0, 0, 0, 0, 0x07, 0xD0]"

definition version1_response :: "u8 list" where
  "version1_response =
     [0, 1, 0, 1, 0, 0, 0, 42, 0, 0, 0, 0, 0, 0, 0, 18,
      0, 1, 0, 0, 0, 0, 0, 0, 0x03, 0xE8, 0, 0, 0, 0, 0, 0, 0x07, 0xD0]"

definition version9_callback :: "u8 list" where
  "version9_callback = [0, 9, 0, 1, 0, 0, 0, 0, 0, 0, 0, 2, 0, 0, 0, 2, 0, 0]"

text \<open>
  The request that \<open>cmd_query\<close> builds for \<open>"LabA"\<close> when the request counter stands at 41:
  header (version 1, opCode 1, requestId 42, no flag, 22 bytes of payload), the string,
  and the two timestamps 1728518400000 and 1728604800000.
\<close>

definition query_LabA :: "u8 list" where
  "query_LabA =
     [0, 1, 0, 1, 0, 0, 0, 42, 0, 0, 0, 0, 0, 0, 0, 22,
      0, 4, 0x4C, 0x61, 0x62, 0x41,
      0, 0, 0x01, 0x92, 0x73, 0xB9, 0xA8, 0x00,
      0, 0, 0x01, 0x92, 0x78, 0xE0, 0x04, 0x00]"

section \<open>Facts about buffers and byte order\<close>

lemma memcpy_to_length: "memcpy_to buf p src = Some buf' \<Longrightarrow> length buf' = length buf"
  by (auto simp: memcpy_to_def split: if_splits)

lemma memcpy_to_adjacent:
  assumes "memcpy_to buf p xs = Some buf'"
  shows "memcpy_to buf' (p + length xs) ys = memcpy_to buf p (xs @ ys)"
proof -
  from assms have fits: "p + length xs \<le> length buf"
    and buf': "buf' = take p buf @ xs @ drop (p + length xs) buf"
    by (auto simp: memcpy_to_def split: if_splits)
  have len: "length buf' = length buf" using assms by (rule memcpy_to_length)
  have tk: "take (p + length xs) buf' = take p buf @ xs"
    using fits by (simp add: buf')
  have dr: "drop (p + (length xs + length ys)) buf' = drop (p + (length xs + length ys)) buf"
    using fits by (simp add: buf' ac_simps)
  have "memcpy_to buf' (p + length xs) ys =
        (if p + (length xs + length ys) \<le> length buf
         then Some ((take p buf @ xs) @ ys @ drop (p + (length xs + length ys)) buf) else None)"
    unfolding memcpy_to_def len tk by (simp only: dr add.assoc)
  then show ?thesis
    by (simp add: memcpy_to_def)
qed

lemma ntohs_htons: "ntohs (htons v) = v"
  unfolding htons_def ntohs.simps
  by (rule bit_word_eqI) (auto simp: bit_simps)

lemma ntohl_htonl: "ntohl (htonl v) = v"
  unfolding htonl_def ntohl.simps
proof (rule bit_word_eqI)
  fix n :: nat
  assume "n < LENGTH(32)"
  then show "bit (push_bit 24 (ucast (ucast (drop_bit 24 v) :: u8)) OR
                 push_bit 16 (ucast (ucast (drop_bit 16 v) :: u8)) OR
                 push_bit 8 (ucast (ucast (drop_bit 8 v) :: u8)) OR ucast (ucast v :: u8) :: u32) n
             \<longleftrightarrow> bit v n"
    by (cases "n < 8"; cases "n < 16"; cases "n < 24") (auto simp: bit_simps)
qed

lemma i64_halves:
  "push_bit 32 (ucast (ucast (signed_drop_bit 32 v AND 0xFFFFFFFF) :: u32)) OR
   ucast (ucast (v AND 0xFFFFFFFF) :: u32) = (v :: i64)"
proof -
  have m: "(0xFFFFFFFF :: i64) = mask 32"
    by (simp add: mask_eq_exp_minus_1)
  show ?thesis
    unfolding m
  proof (rule bit_word_eqI)
    fix n :: nat
    assume "n < LENGTH(64)"
    then show "bit (push_bit 32 (ucast (ucast (signed_drop_bit 32 v AND mask 32) :: u32)) OR
                   ucast (ucast (v AND mask 32) :: u32) :: i64) n \<longleftrightarrow> bit v n"
      by (cases "n < 32") (auto simp: bit_simps)
  qed
qed

lemma length_htons [simp]: "length (htons v) = 2"
  by (simp add: htons_def)

lemma length_htonl [simp]: "length (htonl v) = 4"
  by (simp add: htonl_def)

lemma memcpy_to_seq:
  assumes "q = p + length xs"
  shows "Option.bind (memcpy_to buf p xs) (\<lambda>b. Option.bind (memcpy_to b q ys) f) =
         Option.bind (memcpy_to buf p (xs @ ys)) f"
proof (cases "memcpy_to buf p xs")
  case None
  then have "memcpy_to buf p (xs @ ys) = None"
    by (auto simp: memcpy_to_def split: if_splits)
  with None show ?thesis by simp
next
  case (Some b)
  with assms memcpy_to_adjacent [OF Some, of ys] show ?thesis by simp
qed

lemma ucast_drop_bit_div:
  "(ucast (drop_bit k (v :: 'a::len word)) :: u8) = of_nat (unat v div 2 ^ k)"
proof -
  have "(ucast (drop_bit k v) :: u8) = of_nat (unat (drop_bit k v))"
    by simp
  also have "unat (drop_bit k v) = unat v div 2 ^ k"
    unfolding unat_drop_bit_eq by (rule drop_bit_eq_div)
  finally show ?thesis .
qed

lemma byte_of_nat_mod: "(of_nat (n mod 256) :: u8) = of_nat n"
  by (simp add: word_of_nat_eq_iff take_bit_eq_mod)

lemma htons_be16: "htons v = be16 (unat v)"
  using ucast_drop_bit_div [of 0 v] ucast_drop_bit_div [of 8 v]
  by (simp add: htons_def be16_def byte_of_nat_mod)

lemma htonl_be32: "htonl v = be32 (unat v)"
  using ucast_drop_bit_div [of 0 v] ucast_drop_bit_div [of 8 v]
    ucast_drop_bit_div [of 16 v] ucast_drop_bit_div [of 24 v]
  by (simp add: htonl_def be32_def byte_of_nat_mod)

lemma write_u16_eq:
  "write_u16 buf p v = Option.bind (memcpy_to buf p (htons v)) (\<lambda>b. Some (b, 2))"
  by (simp add: write_u16_def)

lemma write_u32_eq:
  "write_u32 buf p v = Option.bind (memcpy_to buf p (htonl v)) (\<lambda>b. Some (b, 4))"
  by (simp add: write_u32_def)

lemma write_header_eq:
  "write_header buf p h = Option.bind (memcpy_to buf p (wire_header h)) (\<lambda>b. Some (b, 16))"
  by (simp add: write_header_def write_u16_eq write_u32_eq wire_header_def memcpy_to_seq
      flip: htons_be16 htonl_be32)

lemma length_be16 [simp]: "length (be16 n) = 2"
  by (simp add: be16_def)

lemma length_be32 [simp]: "length (be32 n) = 4"
  by (simp add: be32_def)

lemma unat_drop_bit_div: "unat (drop_bit k (v :: 'a::len word)) = unat v div 2 ^ k"
  unfolding unat_drop_bit_eq by (rule drop_bit_eq_div)

lemma high_half:
  fixes v :: i64
  defines "high \<equiv> (ucast (signed_drop_bit 32 v AND 0xFFFFFFFF) :: u32)"
  shows "unat high = unat v div 2 ^ 32"
proof -
  have m: "(0xFFFFFFFF :: i64) = mask 32"
    by (simp add: mask_eq_exp_minus_1)
  have "high = ucast (drop_bit 32 v)"
    unfolding high_def m by (rule bit_word_eqI) (auto simp: bit_simps)
  moreover have "unat (ucast (drop_bit 32 v) :: u32) = take_bit 32 (unat (drop_bit 32 v))"
    by (simp only: unsigned_ucast_eq) simp
  moreover have "unat v div 2 ^ 32 < 2 ^ 32"
    using unsigned_less [of v, where 'a = nat] by simp
  ultimately show ?thesis
    by (simp only: unat_drop_bit_div take_bit_nat_eq_self)
qed

lemma low_half:
  fixes v :: i64
  defines "low \<equiv> (ucast (v AND 0xFFFFFFFF) :: u32)"
  shows "unat low = unat v mod 2 ^ 32"
proof -
  have m: "(0xFFFFFFFF :: i64) = mask 32"
    by (simp add: mask_eq_exp_minus_1)
  have "low = ucast v"
    unfolding low_def m by (rule bit_word_eqI) (auto simp: bit_simps)
  moreover have "unat (ucast v :: u32) = take_bit 32 (unat v)"
    by (simp only: unsigned_ucast_eq) simp
  ultimately show ?thesis
    by (simp only: take_bit_eq_mod)
qed

lemma write_i64_eq:
  "write_i64 buf p v = Option.bind (memcpy_to buf p (wire_i64 v)) (\<lambda>b. Some (b, 8))"
proof -
  define high :: u32 where "high = ucast (signed_drop_bit 32 v AND 0xFFFFFFFF)"
  define low :: u32 where "low = ucast (v AND 0xFFFFFFFF)"
  have "write_i64 buf p v =
        Option.bind (memcpy_to buf p (htonl high @ htonl low)) (\<lambda>b. Some (b, 8))"
    unfolding write_i64_def Let_def high_def [symmetric] low_def [symmetric]
    by (simp add: write_u32_eq memcpy_to_seq)
  moreover have "htonl high @ htonl low = wire_i64 v"
    unfolding htonl_be32 wire_i64_def high_def low_def
    by (simp only: high_half) (simp only: low_half)
  ultimately show ?thesis by simp
qed

lemma htons_length_prefix:
  assumes "m \<le> 65535"
  shows "htons (of_nat m) = be16 m"
proof -
  from assms have "unat (of_nat m :: u16) = m"
    by (simp add: unat_of_nat)
  then show ?thesis
    by (simp only: htons_be16)
qed

lemma write_string_eq:
  "write_string buf p s =
     Option.bind (memcpy_to buf p (wire_string s))
       (\<lambda>b. Some (b, 2 + int (min (length s) 65535)))"
proof -
  define m where "m = min (length s) 65535"
  have m: "m \<le> 65535" "(if 65535 < length s then 65535 else length s) = m"
    by (auto simp: m_def)
  have "write_string buf p s =
        Option.bind (memcpy_to buf p (htons (of_nat m) @ take m s)) (\<lambda>b. Some (b, 2 + int m))"
    unfolding write_string_def strlen_def Let_def
    by (simp only: m) (simp add: write_u16_eq memcpy_to_seq m(1))
  then show ?thesis
    by (simp add: htons_length_prefix m(1) wire_string_def flip: m_def)
qed

section \<open>What the decoders and encoders compute\<close>

lemma read_u16_eq:
  "read_u16 buf p =
     (if p + 2 \<le> length buf then Some (2, ntohs (take 2 (drop p buf))) else None)"
  by (simp add: read_u16_def memcpy_from_def)

lemma read_u32_eq:
  "read_u32 buf p =
     (if p + 4 \<le> length buf then Some (4, ntohl (take 4 (drop p buf))) else None)"
  by (simp add: read_u32_def memcpy_from_def)

lemma read_i64_eq:
  "read_i64 buf p =
     (if p + 8 \<le> length buf
      then Some (8, push_bit 32 (ucast (ntohl (take 4 (drop p buf)))) OR
                    ucast (ntohl (take 4 (drop (p + 4) buf))))
      else None)"
  by (simp add: read_i64_def read_u32_eq)

lemma read_header_eq:
  "read_header buf p =
     (if p + 16 \<le> length buf
      then Some (16, \<lparr>version = ntohs (take 2 (drop p buf)),
                      opCode = ntohs (take 2 (drop (p + 2) buf)),
                      requestId = ntohl (take 4 (drop (p + 4) buf)),
                      flags = ntohl (take 4 (drop (p + 8) buf)),
                      payloadLen = ntohl (take 4 (drop (p + 12) buf))\<rparr>)
      else None)"
  by (simp add: read_header_def read_u16_eq read_u32_eq)

lemma read_string_eq:
  "read_string buf p out max_len =
     (if length buf < p + 2 then None
      else let len = unat (ntohs (take 2 (drop p buf))) in
        if max_len \<le> len then Some (out, - 1)
        else if length buf < p + 2 + len \<or> length out < len + 1 then None
        else Some (take len (drop (p + 2) buf) @ [0] @ drop (len + 1) out, 2 + int len))"
  by (auto simp: read_string_def read_u16_eq memcpy_from_def memcpy_to_def Let_def min_def)

lemma wire_header_htons:
  "wire_header h = htons (version h) @ htons (opCode h) @ htonl (requestId h) @
                   htonl (flags h) @ htonl (payloadLen h)"
  by (simp add: wire_header_def htons_be16 htonl_be32)

lemma length_wire_header [simp]: "length (wire_header h) = 16"
  by (simp add: wire_header_def)

lemma length_wire_i64 [simp]: "length (wire_i64 v) = 8"
  by (simp add: wire_i64_def)

lemma length_wire_string [simp]: "length (wire_string s) = 2 + min (length s) 65535"
  by (simp add: wire_string_def)

lemma read_header_wire:
  assumes "p \<le> length buf"
  shows "read_header (take p buf @ wire_header h @ rest) p = Some (16, h)"
  using assms
  by (simp add: read_header_eq wire_header_htons ntohs_htons ntohl_htonl)

lemma wire_i64_htonl:
  "wire_i64 v = htonl (ucast (signed_drop_bit 32 v AND 0xFFFFFFFF)) @
                htonl (ucast (v AND 0xFFFFFFFF))"
  unfolding htonl_be32 wire_i64_def
  by (simp only: high_half) (simp only: low_half)

lemma read_i64_wire:
  assumes "p \<le> length buf"
  shows "read_i64 (take p buf @ wire_i64 v @ rest) p = Some (8, v)"
  using assms
  by (simp add: read_i64_eq wire_i64_htonl ntohl_htonl i64_halves del: of_nat_unat)

section \<open>Properties of the codec\<close>

text \<open>
  C3. Header round trip. For every header \<open>h\<close> and every position with 16 bytes of room,
  \<open>write_header\<close> returns 16 and puts exactly the 16 bytes \<open>wire_header h\<close> there (the
  five fields in order, each big-endian, nothing between them) and leaves the rest of
  the buffer alone; \<open>read_header\<close> on the result returns 16 and a header equal to \<open>h\<close>.
\<close>

theorem header_round_trip:
  assumes "p + 16 \<le> length buf"
  shows "write_header buf p h = Some (take p buf @ wire_header h @ drop (p + 16) buf, 16) \<and>
         length (wire_header h) = 16 \<and>
         read_header (take p buf @ wire_header h @ drop (p + 16) buf) p = Some (16, h)"
  using assms by (simp add: write_header_eq memcpy_to_def read_header_wire)

theorem header_round_trip_witness:
  "2 + 16 \<le> length ([0, 0, 0, 0, 0, 0, 0, 0, 0, 0, 0, 0, 0, 0, 0, 0, 0, 0, 0, 0] :: u8 list) \<and>
   write_header [0, 0, 0, 0, 0, 0, 0, 0, 0, 0, 0, 0, 0, 0, 0, 0, 0, 0, 0, 0] 2
     \<lparr>version = 1, opCode = 0x8001, requestId = 0xDEADBEEF, flags = 1, payloadLen = 0xFFFFFFFF\<rparr> =
     Some ([0, 0, 0, 1, 0x80, 1, 0xDE, 0xAD, 0xBE, 0xEF, 0, 0, 0, 1, 0xFF, 0xFF, 0xFF, 0xFF, 0, 0], 16) \<and>
   read_header [0, 0, 0, 1, 0x80, 1, 0xDE, 0xAD, 0xBE, 0xEF, 0, 0, 0, 1, 0xFF, 0xFF, 0xFF, 0xFF, 0, 0] 2 =
     Some (16, \<lparr>version = 1, opCode = 0x8001, requestId = 0xDEADBEEF, flags = 1,
                 payloadLen = 0xFFFFFFFF\<rparr>)"
  using header_round_trip [of 2 "[0, 0, 0, 0, 0, 0, 0, 0, 0, 0, 0, 0, 0, 0, 0, 0, 0, 0, 0, 0]"
      "\<lparr>version = 1, opCode = 0x8001, requestId = 0xDEADBEEF, flags = 1, payloadLen = 0xFFFFFFFF\<rparr>"]
  by (simp add: wire_header_def be16_def be32_def)

text \<open>
  C4. Field round trips. With room in the buffer, reading back what was written returns
  the value written and the same byte count: for every 16-bit and 32-bit value, for
  every 64-bit value (negative ones and zero included; the eight bytes are the two
  32-bit halves, high word first, each big-endian), and for every string of at most
  65535 bytes that is shorter than the capacity \<open>max_len\<close> of the output array, which
  then holds the bytes of the string and a terminating NUL (so the C string in it is
  \<open>s\<close>, for a C string \<open>s\<close>, which has no NUL of its own); both string functions report
  \<open>2 + length s\<close> bytes.
\<close>

theorem field_round_trip:
  "(p + 2 \<le> length buf \<longrightarrow>
      (\<exists>buf'. write_u16 buf p x16 = Some (buf', 2) \<and> read_u16 buf' p = Some (2, x16))) \<and>
   (p + 4 \<le> length buf \<longrightarrow>
      (\<exists>buf'. write_u32 buf p x32 = Some (buf', 4) \<and> read_u32 buf' p = Some (4, x32))) \<and>
   (p + 8 \<le> length buf \<longrightarrow>
      (\<exists>buf'. write_i64 buf p x64 = Some (buf', 8) \<and> read_i64 buf' p = Some (8, x64) \<and>
              take 8 (drop p buf') = be32 (unat x64 div 2 ^ 32) @ be32 (unat x64 mod 2 ^ 32))) \<and>
   (length s \<le> 65535 \<and> length s < max_len \<and> max_len \<le> length out \<and>
    p + 2 + length s \<le> length buf \<longrightarrow>
      (\<exists>buf'. write_string buf p s = Some (buf', 2 + int (length s)) \<and>
              read_string buf' p out max_len =
                Some (s @ [0] @ drop (length s + 1) out, 2 + int (length s)) \<and>
              (0 \<notin> set s \<longrightarrow> c_str (s @ [0] @ drop (length s + 1) out) = s)))"
proof (intro conjI impI)
  assume "p + 2 \<le> length buf"
  then show "\<exists>buf'. write_u16 buf p x16 = Some (buf', 2) \<and> read_u16 buf' p = Some (2, x16)"
    by (simp add: write_u16_eq memcpy_to_def read_u16_eq ntohs_htons)
next
  assume "p + 4 \<le> length buf"
  then show "\<exists>buf'. write_u32 buf p x32 = Some (buf', 4) \<and> read_u32 buf' p = Some (4, x32)"
    by (simp add: write_u32_eq memcpy_to_def read_u32_eq ntohl_htonl)
next
  assume "p + 8 \<le> length buf"
  then show "\<exists>buf'. write_i64 buf p x64 = Some (buf', 8) \<and> read_i64 buf' p = Some (8, x64) \<and>
              take 8 (drop p buf') = be32 (unat x64 div 2 ^ 32) @ be32 (unat x64 mod 2 ^ 32)"
    by (simp add: write_i64_eq memcpy_to_def read_i64_wire) (simp add: wire_i64_def)
next
  assume a: "length s \<le> 65535 \<and> length s < max_len \<and> max_len \<le> length out \<and>
             p + 2 + length s \<le> length buf"
  then have m: "min (length s) 65535 = length s"
    by simp
  have u: "unat (ntohs (be16 (length s))) = length s"
    using a by (simp add: unat_of_nat flip: htons_length_prefix add: ntohs_htons)
  have w: "write_string buf p s =
             Some (take p buf @ (be16 (length s) @ s) @ drop (p + (2 + length s)) buf,
                   2 + int (length s))"
    using a by (simp add: write_string_eq memcpy_to_def wire_string_def m add.assoc)
  have r: "read_string (take p buf @ (be16 (length s) @ s) @ drop (p + (2 + length s)) buf)
             p out max_len = Some (s @ [0] @ drop (length s + 1) out, 2 + int (length s))"
    using a by (auto simp: read_string_eq u Let_def)
  have c: "0 \<notin> set s \<longrightarrow> c_str (s @ [0] @ drop (length s + 1) out) = s"
  proof
    assume "0 \<notin> set s"
    then have "\<And>x. x \<in> set s \<Longrightarrow> x \<noteq> 0"
      by auto
    from takeWhile_append2 [of s "\<lambda>b. b \<noteq> 0", OF this]
    show "c_str (s @ [0] @ drop (length s + 1) out) = s"
      by (simp add: c_str_def)
  qed
  from w r c show "\<exists>buf'. write_string buf p s = Some (buf', 2 + int (length s)) \<and>
              read_string buf' p out max_len =
                Some (s @ [0] @ drop (length s + 1) out, 2 + int (length s)) \<and>
              (0 \<notin> set s \<longrightarrow> c_str (s @ [0] @ drop (length s + 1) out) = s)"
    by simp
qed

theorem field_round_trip_witness:
  "(\<exists>buf'. write_u16 (replicate 8 0) 0 0xFFFF = Some (buf', 2) \<and> read_u16 buf' 0 = Some (2, 0xFFFF)) \<and>
   (\<exists>buf'. write_u32 (replicate 8 0) 0 0xFFFFFFFF = Some (buf', 4) \<and>
            read_u32 buf' 0 = Some (4, 0xFFFFFFFF)) \<and>
   (\<exists>buf'. write_i64 (replicate 8 0) 0 (- 2) = Some (buf', 8) \<and> read_i64 buf' 0 = Some (8, - 2) \<and>
            take 8 (drop 0 buf') = [0xFF, 0xFF, 0xFF, 0xFF, 0xFF, 0xFF, 0xFF, 0xFE]) \<and>
   (\<exists>buf'. write_string (replicate 8 0) 0 [0x4C, 0x61, 0x62, 0x41] = Some (buf', 6) \<and>
            read_string buf' 0 (replicate 5 0xEE) 5 = Some ([0x4C, 0x61, 0x62, 0x41, 0], 6) \<and>
            c_str [0x4C, 0x61, 0x62, 0x41, 0] = [0x4C, 0x61, 0x62, 0x41])"
  using field_round_trip [of 0 "replicate 8 0" "0xFFFF" "0xFFFFFFFF" "- 2"
      "[0x4C, 0x61, 0x62, 0x41]" 5 "replicate 5 0xEE"]
  by (simp add: be32_def)

text \<open>
  C8. \<open>write_string\<close> clamps. For every string \<open>s\<close>, with room in the buffer,
  \<open>write_string\<close> writes the big-endian 16-bit prefix \<open>min (length s) 65535\<close> followed by
  that many bytes of \<open>s\<close> and returns \<open>2 + min (length s) 65535\<close>: a longer string is cut
  and nothing reports it.
\<close>

theorem write_string_clamps:
  assumes "p + 2 + min (length s) 65535 \<le> length buf"
  shows "write_string buf p s =
           Some (take p buf @ be16 (min (length s) 65535) @ take (min (length s) 65535) s @
                 drop (p + 2 + min (length s) 65535) buf,
                 2 + int (min (length s) 65535))"
  using assms by (simp add: write_string_eq memcpy_to_def wire_string_def add.assoc)

theorem write_string_clamps_witness:
  "0 + 2 + min (length (replicate 70000 (0x41 :: u8))) 65535 \<le> length (replicate 65537 (0 :: u8)) \<and>
   write_string (replicate 65537 0) 0 (replicate 70000 0x41) =
     Some ([0xFF, 0xFF] @ replicate 65535 0x41, 65537)"
  using write_string_clamps [of 0 "replicate 70000 0x41" "replicate 65537 0"]
  by (simp add: be16_def)

text \<open>
  C2, as the code has it. The decoders are given no length and check none. Each of
  \<open>read_u16\<close>, \<open>read_u32\<close>, \<open>read_i64\<close>, \<open>read_header\<close> returns its fixed count (2, 4, 8,
  16) with the decoded value exactly when that many bytes lie inside the buffer, and
  reads past its end otherwise; none of them has a failure to report. \<open>read_string\<close>
  reports \<open>-1\<close> only when the declared length does not fit \<open>max_len\<close>, having read the
  two bytes of the prefix; otherwise it copies the declared number of bytes, past the
  end of a buffer that is shorter.
\<close>

theorem decoders_unchecked:
  "read_u16 buf p =
     (if p + 2 \<le> length buf then Some (2, ntohs (take 2 (drop p buf))) else None) \<and>
   read_u32 buf p =
     (if p + 4 \<le> length buf then Some (4, ntohl (take 4 (drop p buf))) else None) \<and>
   read_i64 buf p =
     (if p + 8 \<le> length buf
      then Some (8, push_bit 32 (ucast (ntohl (take 4 (drop p buf)))) OR
                    ucast (ntohl (take 4 (drop (p + 4) buf))))
      else None) \<and>
   read_header buf p =
     (if p + 16 \<le> length buf
      then Some (16, \<lparr>version = ntohs (take 2 (drop p buf)),
                      opCode = ntohs (take 2 (drop (p + 2) buf)),
                      requestId = ntohl (take 4 (drop (p + 4) buf)),
                      flags = ntohl (take 4 (drop (p + 8) buf)),
                      payloadLen = ntohl (take 4 (drop (p + 12) buf))\<rparr>)
      else None) \<and>
   read_string buf p out max_len =
     (if length buf < p + 2 then None
      else let len = unat (ntohs (take 2 (drop p buf))) in
        if max_len \<le> len then Some (out, - 1)
        else if length buf < p + 2 + len \<or> length out < len + 1 then None
        else Some (take len (drop (p + 2) buf) @ [0] @ drop (len + 1) out, 2 + int len))"
  using read_u16_eq read_u32_eq read_i64_eq read_header_eq read_string_eq by simp

text \<open>
  C2 fails as stated: on a header buffer of 15 bytes, on integer buffers one byte short
  and on a string whose prefix declares 5 bytes where 1 remains, the decoders read past
  the end and report nothing.
\<close>

theorem decoders_overread:
  "read_header [0, 1, 0, 1, 0, 0, 0, 7, 0, 0, 0, 0, 0, 0, 0] 0 = None \<and>
   read_u16 [0x12] 0 = None \<and>
   read_u32 [0, 0, 1] 0 = None \<and>
   read_i64 [0, 0, 0, 0, 0, 0, 3] 0 = None \<and>
   read_string [0, 5, 0x41] 0 (replicate 8 0) 8 = None"
  by (simp add: read_header_def read_string_def read_i64_def read_u32_def read_u16_def
      memcpy_from_def)

section \<open>Properties of the invocation engine\<close>

lemma sent_datagrams_append [simp]:
  "sent_datagrams (xs @ ys) = sent_datagrams xs @ sent_datagrams ys"
  by (induction xs rule: sent_datagrams.induct) simp_all

text \<open>Every datagram the loop sends is the request, whatever the socket does.\<close>

lemma udp_invoke_loop_sends:
  "set (sent_datagrams (snd (snd
     (udp_invoke_loop sock request response timeout_ms max_retries attempt log)))) \<subseteq>
   insert request (set (sent_datagrams log))"
proof (induction sock request response timeout_ms max_retries attempt log
    rule: udp_invoke_loop.induct)
  case (1 sock request response timeout_ms max_retries attempt log)
  show ?case
    apply (subst udp_invoke_loop.simps)
    using 1 by (auto simp: Let_def split: option.splits)
qed

text \<open>A negative return value of the loop is \<open>-1\<close>.\<close>

lemma udp_invoke_loop_negative:
  "fst (udp_invoke_loop sock request response timeout_ms max_retries attempt log) = Returns n \<Longrightarrow>
   n < 0 \<Longrightarrow> n = - 1"
proof (induction sock request response timeout_ms max_retries attempt log
    rule: udp_invoke_loop.induct)
  case (1 sock request response timeout_ms max_retries attempt log)
  from "1.prems" show ?case
    apply (subst (asm) udp_invoke_loop.simps)
    using "1.IH" by (auto simp: Let_def split: option.splits if_splits)
qed

text \<open>
  One turn of the loop that ends in \<open>continue\<close> (the send failed, or \<open>select\<close> timed out),
  and the exit of the loop, both while \<open>max_retries + 1\<close> is an \<open>int\<close>.
\<close>

lemma udp_invoke_loop_continue:
  assumes "0 \<le> attempt" "attempt \<le> max_retries" "max_retries < INT_MAX"
    and "sendto sock (nat attempt) request < 0 \<or>
         select sock (nat attempt) (c_div timeout_ms 1000, c_mod timeout_ms 1000 * 1000) = 0"
  shows "\<exists>line. udp_invoke_loop sock request response timeout_ms max_retries attempt log =
           udp_invoke_loop sock request response timeout_ms max_retries (attempt + 1)
             (log @ [Sendto request, line]) \<and> sent_datagrams [line] = []"
proof -
  have a: "int_add attempt 1 = Some (attempt + 1)"
    and m: "int_add max_retries 1 = Some (max_retries + 1)"
    using assms(1-3) by (simp_all add: int_add_def INT_MAX_def INT_MIN_def)
  show ?thesis
  proof (cases "sendto sock (nat attempt) request < 0")
    case True
    with assms(2) a have
      "udp_invoke_loop sock request response timeout_ms max_retries attempt log =
       udp_invoke_loop sock request response timeout_ms max_retries (attempt + 1)
         (log @ [Sendto request, Perror ''sendto failed''])"
      by (subst udp_invoke_loop.simps) (simp add: Let_def)
    then show ?thesis
      by (intro exI [of _ "Perror ''sendto failed''"]) simp
  next
    case False
    with assms(4) have
      "select sock (nat attempt) (c_div timeout_ms 1000, c_mod timeout_ms 1000 * 1000) = 0"
      by simp
    with False assms(2) a m have
      "udp_invoke_loop sock request response timeout_ms max_retries attempt log =
       udp_invoke_loop sock request response timeout_ms max_retries (attempt + 1)
         (log @ [Sendto request,
                 Stdout ''[retry %d/%d] timeout, retrying...''
                   [Arg_int (attempt + 1), Arg_int (max_retries + 1)]])"
      by (subst udp_invoke_loop.simps) (simp add: Let_def)
    then show ?thesis
      by (intro exI [of _ "Stdout ''[retry %d/%d] timeout, retrying...''
                             [Arg_int (attempt + 1), Arg_int (max_retries + 1)]"]) simp
  qed
qed

lemma udp_invoke_loop_exhausted:
  assumes "max_retries < attempt" "0 \<le> attempt" "attempt \<le> max_retries + 1" "max_retries < INT_MAX"
  shows "udp_invoke_loop sock request response timeout_ms max_retries attempt log =
           (Returns (- 1), response,
            log @ [Stderr ''Failed after %d retries'' [Arg_int (max_retries + 1)]])"
proof -
  have "int_add max_retries 1 = Some (max_retries + 1)"
    using assms by (simp add: int_add_def INT_MAX_def INT_MIN_def)
  with assms(1) show ?thesis
    by (subst udp_invoke_loop.simps) simp
qed

text \<open>
  A socket on which no attempt gets further than a timeout: from \<open>attempt\<close> on the loop
  sends once per remaining attempt and returns \<open>-1\<close>.
\<close>

lemma udp_invoke_loop_no_reply:
  assumes stuck: "\<And>k. sendto sock k request < 0 \<or>
                      select sock k (c_div timeout_ms 1000, c_mod timeout_ms 1000 * 1000) = 0"
    and "max_retries < INT_MAX"
  shows "0 \<le> attempt \<Longrightarrow> attempt \<le> max_retries + 1 \<Longrightarrow>
         \<exists>log'. udp_invoke_loop sock request response timeout_ms max_retries attempt log =
                  (Returns (- 1), response, log @ log') \<and>
                sent_datagrams log' = replicate (nat (max_retries + 1 - attempt)) request"
proof (induction "nat (max_retries + 1 - attempt)" arbitrary: attempt log)
  case 0
  then have "max_retries < attempt"
    by simp
  from udp_invoke_loop_exhausted [OF this "0.prems" assms(2)] "0.hyps" show ?case
    by simp
next
  case (Suc n)
  then have le: "attempt \<le> max_retries" and n: "n = nat (max_retries + 1 - (attempt + 1))"
    by simp_all
  from udp_invoke_loop_continue [OF Suc.prems(1) le assms(2) stuck]
  obtain line where step:
    "udp_invoke_loop sock request response timeout_ms max_retries attempt log =
     udp_invoke_loop sock request response timeout_ms max_retries (attempt + 1)
       (log @ [Sendto request, line])"
    and line: "sent_datagrams [line] = []"
    by blast
  from Suc.hyps(1) [OF n, of "log @ [Sendto request, line]"] Suc.prems le
  obtain log' where
    "udp_invoke_loop sock request response timeout_ms max_retries (attempt + 1)
       (log @ [Sendto request, line]) =
     (Returns (- 1), response, (log @ [Sendto request, line]) @ log')"
    and sent: "sent_datagrams log' = replicate n request"
    using n by auto
  moreover have "sent_datagrams ([Sendto request, line] @ log') =
                 replicate (nat (max_retries + 1 - attempt)) request"
  proof -
    have "sent_datagrams ([Sendto request] @ [line] @ log') = request # replicate n request"
      unfolding sent_datagrams_append line sent by simp
    then show ?thesis
      by (simp flip: Suc.hyps(2))
  qed
  ultimately show ?case
    using step by (intro exI [of _ "[Sendto request, line] @ log'"]) simp
qed

text \<open>
  A socket that fails hard (\<open>select\<close> or \<open>recvfrom\<close> negative) in attempt \<open>k\<close>, after
  attempts without reply: the loop returns \<open>-1\<close>.
\<close>

lemma udp_invoke_loop_hard_error:
  assumes "max_retries < INT_MAX" "k \<le> max_retries"
    and before: "\<And>j. j < nat k \<Longrightarrow> sendto sock j request < 0 \<or>
                   select sock j (c_div timeout_ms 1000, c_mod timeout_ms 1000 * 1000) = 0"
    and sent: "0 \<le> sendto sock (nat k) request"
    and err: "select sock (nat k) (c_div timeout_ms 1000, c_mod timeout_ms 1000 * 1000) < 0 \<or>
              0 < select sock (nat k) (c_div timeout_ms 1000, c_mod timeout_ms 1000 * 1000) \<and>
              recvfrom sock (nat k) = None"
  shows "0 \<le> attempt \<Longrightarrow> attempt \<le> k \<Longrightarrow>
         fst (udp_invoke_loop sock request response timeout_ms max_retries attempt log) = Returns (- 1)"
proof (induction "nat (k - attempt)" arbitrary: attempt log)
  case 0
  then have "attempt = k" by simp
  with assms(2) sent err show ?case
    by (subst udp_invoke_loop.simps) (auto simp: Let_def)
next
  case (Suc n)
  then have lt: "attempt < k" and n: "n = nat (k - (attempt + 1))"
    by simp_all
  with Suc.prems have "nat attempt < nat k" by simp
  from before [OF this] have stuck:
    "sendto sock (nat attempt) request < 0 \<or>
     select sock (nat attempt) (c_div timeout_ms 1000, c_mod timeout_ms 1000 * 1000) = 0" .
  from lt assms(2) have le: "attempt \<le> max_retries" by simp
  from udp_invoke_loop_continue [OF Suc.prems(1) le assms(1) stuck]
  obtain line where
    "udp_invoke_loop sock request response timeout_ms max_retries attempt log =
     udp_invoke_loop sock request response timeout_ms max_retries (attempt + 1)
       (log @ [Sendto request, line])"
    by blast
  with Suc.hyps(1) [OF n, of "log @ [Sendto request, line]"] Suc.prems lt show ?case
    by simp
qed

text \<open>
  A socket that delivers a datagram in attempt \<open>k\<close>, after attempts without reply: the loop
  returns its length and has sent \<open>k + 1\<close> times, the last time in attempt \<open>k\<close>.
\<close>

lemma udp_invoke_loop_reply:
  assumes "max_retries < INT_MAX" "k \<le> max_retries"
    and before: "\<And>j. j < nat k \<Longrightarrow> sendto sock j request < 0 \<or>
                   select sock j (c_div timeout_ms 1000, c_mod timeout_ms 1000 * 1000) = 0"
    and sent: "0 \<le> sendto sock (nat k) request"
    and ready: "0 < select sock (nat k) (c_div timeout_ms 1000, c_mod timeout_ms 1000 * 1000)"
    and dgram: "recvfrom sock (nat k) = Some dgram"
  shows "0 \<le> attempt \<Longrightarrow> attempt \<le> k \<Longrightarrow>
         \<exists>log'. udp_invoke_loop sock request response timeout_ms max_retries attempt log =
                  (Returns (int (min (length dgram) (length response))),
                   take (min (length dgram) (length response)) dgram @
                   drop (min (length dgram) (length response)) response, log @ log') \<and>
                sent_datagrams log' = replicate (nat (k - attempt) + 1) request"
proof (induction "nat (k - attempt)" arbitrary: attempt log)
  case 0
  then have "attempt = k" by simp
  with assms(2) sent ready dgram have
    "udp_invoke_loop sock request response timeout_ms max_retries attempt log =
       (Returns (int (min (length dgram) (length response))),
        take (min (length dgram) (length response)) dgram @
        drop (min (length dgram) (length response)) response, log @ [Sendto request])"
    by (subst udp_invoke_loop.simps) (auto simp: Let_def)
  with \<open>attempt = k\<close> show ?case
    by (intro exI [of _ "[Sendto request]"]) simp
next
  case (Suc n)
  then have lt: "attempt < k" and n: "n = nat (k - (attempt + 1))"
    by simp_all
  with Suc.prems have "nat attempt < nat k" by simp
  from before [OF this] have stuck:
    "sendto sock (nat attempt) request < 0 \<or>
     select sock (nat attempt) (c_div timeout_ms 1000, c_mod timeout_ms 1000 * 1000) = 0" .
  from lt assms(2) have le: "attempt \<le> max_retries" by simp
  from udp_invoke_loop_continue [OF Suc.prems(1) le assms(1) stuck]
  obtain line where step:
    "udp_invoke_loop sock request response timeout_ms max_retries attempt log =
     udp_invoke_loop sock request response timeout_ms max_retries (attempt + 1)
       (log @ [Sendto request, line])"
    and line: "sent_datagrams [line] = []"
    by blast
  from Suc.hyps(1) [OF n, of "log @ [Sendto request, line]"] Suc.prems lt
  obtain log' where run:
    "udp_invoke_loop sock request response timeout_ms max_retries (attempt + 1)
       (log @ [Sendto request, line]) =
     (Returns (int (min (length dgram) (length response))),
      take (min (length dgram) (length response)) dgram @
      drop (min (length dgram) (length response)) response,
      (log @ [Sendto request, line]) @ log')"
    and sent': "sent_datagrams log' = replicate (nat (k - (attempt + 1)) + 1) request"
    by auto
  have "sent_datagrams ([Sendto request] @ [line] @ log') =
        request # replicate (nat (k - (attempt + 1)) + 1) request"
    unfolding sent_datagrams_append line sent' by simp
  moreover from lt have "Suc (nat (k - (attempt + 1))) = nat (k - attempt)"
    by simp
  ultimately have "sent_datagrams ([Sendto request, line] @ log') =
                   replicate (nat (k - attempt) + 1) request"
    by simp
  with step run show ?case
    by (intro exI [of _ "[Sendto request, line] @ log'"]) simp
qed

text \<open>
  The retry bound below \<open>INT_MAX\<close>. For every request, timeout and retry budget
  \<open>0 \<le> r < INT_MAX\<close>, on a socket whose \<open>select\<close> returns 0 every time, \<open>udp_invoke\<close>
  returns \<open>-1\<close>, leaves \<open>response\<close> alone and has handed the request to \<open>sendto\<close> exactly
  \<open>r + 1\<close> times.
\<close>

theorem retry_bound_below_int_max:
  assumes "0 \<le> r" "r < INT_MAX" "\<And>k tv. select sock k tv = 0"
  shows "\<exists>log. udp_invoke sock request response timeout_ms r = (Returns (- 1), response, log) \<and>
               sent_datagrams log = replicate (nat (r + 1)) request"
  using udp_invoke_loop_no_reply [of sock request timeout_ms r 0 response "[]"] assms
  by (simp add: udp_invoke_def)

text \<open>
  C1 at \<open>max_retries = INT_MAX\<close>. The claim promises \<open>2^31\<close> sends and then \<open>-1\<close>. On a
  socket that always times out the run sends once and then evaluates \<open>max_retries + 1\<close>
  for the retry message, a signed overflow; no \<open>-1\<close> is returned. (Where the addition
  wraps instead, \<open>attempt++\<close> wraps from \<open>INT_MAX\<close> to \<open>INT_MIN\<close> after the \<open>2^31\<close>-th send,
  \<open>attempt <= max_retries\<close> stays true and the loop goes on.)
\<close>

theorem retry_bound_int_max:
  "udp_invoke always_timeout [1, 2, 3] [] 500 2147483647 = (Signed_overflow, [], [Sendto [1, 2, 3]])"
  by (simp add: udp_invoke_def udp_invoke_loop.simps always_timeout_def int_add_def
      INT_MAX_def INT_MIN_def)

text \<open>
  C6, as the code has it. \<open>udp_invoke\<close> returns the same value \<open>-1\<close> when the retries are
  exhausted (every attempt ended in a failed send or a timeout) and when \<open>select\<close> or
  \<open>recvfrom\<close> failed hard in some attempt \<open>k\<close>: the caller cannot tell the two apart by
  the result (budgets \<open>0 \<le> r < INT_MAX\<close>). In any run at all, a negative value returned
  is \<open>-1\<close>.
\<close>

theorem invoke_failures_same_value:
  assumes "0 \<le> r" "r < INT_MAX"
    and exhausted: "\<forall>k. sendto s1 k request < 0 \<or>
                        select s1 k (c_div timeout_ms 1000, c_mod timeout_ms 1000 * 1000) = 0"
    and "0 \<le> k" "k \<le> r"
    and before: "\<forall>j < nat k. sendto s2 j request < 0 \<or>
                   select s2 j (c_div timeout_ms 1000, c_mod timeout_ms 1000 * 1000) = 0"
    and sent: "0 \<le> sendto s2 (nat k) request"
    and broken: "select s2 (nat k) (c_div timeout_ms 1000, c_mod timeout_ms 1000 * 1000) < 0 \<or>
              0 < select s2 (nat k) (c_div timeout_ms 1000, c_mod timeout_ms 1000 * 1000) \<and>
              recvfrom s2 (nat k) = None"
  shows "fst (udp_invoke s1 request response timeout_ms r) = Returns (- 1) \<and>
         fst (udp_invoke s2 request response timeout_ms r) = Returns (- 1) \<and>
         (fst (udp_invoke s3 request response timeout_ms r3) = Returns n \<and> n < 0 \<longrightarrow> n = - 1)"
proof (intro conjI impI)
  assume "fst (udp_invoke s3 request response timeout_ms r3) = Returns n \<and> n < 0"
  then show "n = - 1"
    using udp_invoke_loop_negative [of s3 request response timeout_ms r3 0 "[]" n]
    by (simp add: udp_invoke_def)
next
  from udp_invoke_loop_no_reply [of s1 request timeout_ms r 0 response "[]"] assms(1,2) exhausted
  show "fst (udp_invoke s1 request response timeout_ms r) = Returns (- 1)"
    by (auto simp: udp_invoke_def)
next
  from udp_invoke_loop_hard_error [of r k s2 request timeout_ms 0 response "[]"]
    assms(2,4,5) before sent broken
  show "fst (udp_invoke s2 request response timeout_ms r) = Returns (- 1)"
    by (simp add: udp_invoke_def)
qed

theorem invoke_failures_same_value_witness:
  "fst (udp_invoke always_timeout [1, 2, 3] [9, 9] 500 1) = Returns (- 1) \<and>
   fst (udp_invoke recvfrom_fails [1, 2, 3] [9, 9] 500 1) = Returns (- 1) \<and>
   fst (udp_invoke select_fails [1, 2, 3] [9, 9] 500 1) = Returns (- 1)"
proof -
  have e: "fst (udp_invoke select_fails [1, 2, 3] [9, 9] 500 1) = Returns (- 1)"
    by (simp add: udp_invoke_def udp_invoke_loop.simps select_fails_def)
  from invoke_failures_same_value [of 1 always_timeout "[1, 2, 3]" 500 0 recvfrom_fails "[9, 9]"
      select_fails 1 "- 1"] e
  show ?thesis
    by (simp add: always_timeout_def recvfrom_fails_def INT_MAX_def)
qed

text \<open>
  C6 fails as stated: with a budget of one retry, the run that exhausts its retries and
  the runs in which \<open>select\<close> or \<open>recvfrom\<close> fails return the same \<open>-1\<close> and the same
  \<open>response\<close>; only the line printed differs.
\<close>

theorem exhausted_equals_hard_error:
  "udp_invoke always_timeout [1, 2, 3] [9, 9] 500 1 =
     (Returns (- 1), [9, 9],
      [Sendto [1, 2, 3], Stdout ''[retry %d/%d] timeout, retrying...'' [Arg_int 1, Arg_int 2],
       Sendto [1, 2, 3], Stdout ''[retry %d/%d] timeout, retrying...'' [Arg_int 2, Arg_int 2],
       Stderr ''Failed after %d retries'' [Arg_int 2]]) \<and>
   udp_invoke select_fails [1, 2, 3] [9, 9] 500 1 =
     (Returns (- 1), [9, 9], [Sendto [1, 2, 3], Perror ''select failed'']) \<and>
   udp_invoke recvfrom_fails [1, 2, 3] [9, 9] 500 1 =
     (Returns (- 1), [9, 9], [Sendto [1, 2, 3], Perror ''recvfrom failed''])"
  by (simp add: udp_invoke_def udp_invoke_loop.simps always_timeout_def select_fails_def
      recvfrom_fails_def int_add_def INT_MAX_def INT_MIN_def)

text \<open>
  C9. Retry identity. In every run of \<open>udp_invoke\<close>, whatever the socket does and however
  the run ends, each datagram handed to \<open>sendto\<close> is the request as passed in: the bytes
  of every retry, the header with its requestId included, are those of the first
  attempt.
\<close>

theorem retry_identity:
  assumes "udp_invoke sock request response timeout_ms r = (ret, response', log)"
    and "d \<in> set (sent_datagrams log)"
  shows "d = request"
  using udp_invoke_loop_sends [of sock request response timeout_ms r 0 "[]"] assms
  by (auto simp: udp_invoke_def)

theorem retry_identity_witness:
  "udp_invoke always_timeout [1, 2, 3] [9, 9] 500 1 =
     (Returns (- 1), [9, 9],
      [Sendto [1, 2, 3], Stdout ''[retry %d/%d] timeout, retrying...'' [Arg_int 1, Arg_int 2],
       Sendto [1, 2, 3], Stdout ''[retry %d/%d] timeout, retrying...'' [Arg_int 2, Arg_int 2],
       Stderr ''Failed after %d retries'' [Arg_int 2]]) \<and>
   sent_datagrams
     [Sendto [1, 2, 3], Stdout ''[retry %d/%d] timeout, retrying...'' [Arg_int 1, Arg_int 2],
      Sendto [1, 2, 3], Stdout ''[retry %d/%d] timeout, retrying...'' [Arg_int 2, Arg_int 2],
      Stderr ''Failed after %d retries'' [Arg_int 2]] ! 1 = [1, 2, 3]"
  using retry_identity [of always_timeout "[1, 2, 3]" "[9, 9]" 500 1 "Returns (- 1)" "[9, 9]"
      "[Sendto [1, 2, 3], Stdout ''[retry %d/%d] timeout, retrying...'' [Arg_int 1, Arg_int 2],
        Sendto [1, 2, 3], Stdout ''[retry %d/%d] timeout, retrying...'' [Arg_int 2, Arg_int 2],
        Stderr ''Failed after %d retries'' [Arg_int 2]]" "[1, 2, 3]"]
  by (simp add: udp_invoke_def udp_invoke_loop.simps always_timeout_def int_add_def
      INT_MAX_def INT_MIN_def)

section \<open>Properties of the request builders\<close>

text \<open>
  Each builder computes \<open>request_built\<close> for its opcode and its payload: when
  \<open>16 + length payload\<close> bytes fit \<open>req_buf\<close> it returns the buffer with header and payload
  at the front, the offset \<open>16 + length payload\<close> and the next request id; otherwise a
  writer runs past the end of \<open>req_buf\<close>.
\<close>

lemma build_after_payload:
  "Option.bind (memcpy_to req_buf 16 payload)
     (\<lambda>b. Option.bind (memcpy_to b 0 (wire_header h)) (\<lambda>b'. Some (b', off, g'))) =
   (if 16 + length payload \<le> length req_buf
    then Some (wire_header h @ payload @ drop (16 + length payload) req_buf, off, g')
    else None)"
  by (simp add: memcpy_to_def)

lemmas request_simps =
  write_string_eq write_i64_eq write_u32_eq write_header_eq HEADER_LEN_def
  next_request_id_def PROTOCOL_VERSION_def FLAG_AT_MOST_ONCE_def
  memcpy_to_seq nat_add_distrib build_after_payload request_built_def request_header_def

lemma cmd_query_request_eq:
  "cmd_query_request req_buf facility at_most_once g =
     request_built req_buf 1 g at_most_once (query_payload facility)"
  unfolding cmd_query_request_def
  by (simp add: request_simps OP_QUERY_AVAIL_def query_payload_def)

lemma cmd_book_request_eq:
  "cmd_book_request req_buf facility user start_ms end_ms at_most_once g =
     request_built req_buf 2 g at_most_once (book_payload facility user start_ms end_ms)"
  unfolding cmd_book_request_def
  by (simp add: request_simps OP_BOOK_def book_payload_def)

lemma cmd_custom_incr_request_eq:
  "cmd_custom_incr_request req_buf facility at_most_once g =
     request_built req_buf 0x1002 g at_most_once (custom_incr_payload facility)"
  unfolding cmd_custom_incr_request_def
  by (simp add: request_simps OP_CUSTOM_NON_IDEMPOTENT_def custom_incr_payload_def)

lemma unat_of_int_u32: "unat (of_int i :: u32) = nat (i mod 2 ^ 32)"
  by (simp add: unsigned_of_int take_bit_eq_mod)

lemma cmd_change_request_eq:
  "cmd_change_request req_buf booking_id offset_minutes at_most_once g =
     request_built req_buf 3 g at_most_once (change_payload booking_id offset_minutes)"
  unfolding cmd_change_request_def
  by (simp add: request_simps OP_CHANGE_BOOKING_def change_payload_def htonl_be32
      unat_of_int_u32)

lemma cmd_monitor_request_eq:
  "cmd_monitor_request req_buf facility duration_seconds callback_port at_most_once g =
     request_built req_buf 4 g at_most_once
       (monitor_payload facility duration_seconds callback_port)"
  unfolding cmd_monitor_request_def
  by (simp add: request_simps OP_MONITOR_def monitor_payload_def htonl_be32)

lemma cmd_reset_request_eq:
  "cmd_reset_request req_buf facility day_start day_end at_most_once g =
     request_built req_buf 0x1001 g at_most_once (reset_payload facility day_start day_end)"
  unfolding cmd_reset_request_def
  by (simp add: request_simps OP_CUSTOM_IDEMPOTENT_def reset_payload_def)

lemma read_header_wire0: "read_header (wire_header h @ rest) 0 = Some (16, h)"
  using read_header_wire [of 0 "[]" h rest] by simp

lemma request_built_framed:
  assumes "request_built req_buf op g at_most_once payload = Some (b, offset, g')"
    and "length payload < 2 ^ 32"
  shows "framed b offset payload"
proof -
  from assms(2) have u: "unat (of_nat (length payload) :: u32) = length payload"
    by (simp add: unat_of_nat)
  then have "uint (of_nat (length payload) :: u32) = int (length payload)"
    by (simp only: uint_nat)
  with u assms(1) show ?thesis
    by (auto simp: request_built_def framed_def read_header_wire0 request_header_def
        HEADER_LEN_def split: if_splits)
qed

lemma payload_lengths:
  "length (query_payload facility) < 2 ^ 32"
  "length (book_payload facility user start_ms end_ms) < 2 ^ 32"
  "length (custom_incr_payload facility) < 2 ^ 32"
  "length (change_payload booking_id offset_minutes) < 2 ^ 32"
  "length (monitor_payload facility duration_seconds callback_port) < 2 ^ 32"
  "length (reset_payload facility day_start day_end) < 2 ^ 32"
  by (simp_all add: query_payload_def book_payload_def custom_incr_payload_def
      change_payload_def monitor_payload_def reset_payload_def)


text \<open>
  Whatever request a builder returns is framed; it returns none only when a writer would
  run past the end of \<open>req_buf\<close>.
\<close>

lemma built_request_framed:
  "(cmd_query_request req_buf facility at_most_once g = Some (b1, o1, g1) \<longrightarrow>
      framed b1 o1 (query_payload facility)) \<and>
   (cmd_book_request req_buf facility user start_ms end_ms at_most_once g = Some (b2, o2, g2) \<longrightarrow>
      framed b2 o2 (book_payload facility user start_ms end_ms)) \<and>
   (cmd_custom_incr_request req_buf facility at_most_once g = Some (b3, o3, g3) \<longrightarrow>
      framed b3 o3 (custom_incr_payload facility)) \<and>
   (cmd_change_request req_buf booking_id offset_minutes at_most_once g = Some (b4, o4, g4) \<longrightarrow>
      framed b4 o4 (change_payload booking_id offset_minutes)) \<and>
   (cmd_monitor_request req_buf facility duration_seconds callback_port at_most_once g =
      Some (b5, o5, g5) \<longrightarrow>
      framed b5 o5 (monitor_payload facility duration_seconds callback_port)) \<and>
   (cmd_reset_request req_buf facility day_start day_end at_most_once g = Some (b6, o6, g6) \<longrightarrow>
      framed b6 o6 (reset_payload facility day_start day_end))"
  unfolding cmd_query_request_eq cmd_book_request_eq cmd_custom_incr_request_eq
    cmd_change_request_eq cmd_monitor_request_eq cmd_reset_request_eq
  by (intro conjI impI; erule request_built_framed; rule payload_lengths)



section \<open>Properties of the response handling\<close>

text \<open>
  C5, as the code has it. For every response whose header has the error bit set, every
  command prints the one line \<open>Server error response\<close> and returns, whatever the payload:
  the error kind is not read, so kind 1 gives the same outcome as any other. The
  response is not retried: a datagram received in attempt \<open>k\<close> ends \<open>udp_invoke\<close>, which
  returns its length after \<open>k + 1\<close> sends (budgets \<open>r < INT_MAX\<close>).
\<close>

theorem error_response_generic:
  "(read_header resp_buf 0 = Some (16, h) \<and> opCode h AND OP_ERROR_MASK \<noteq> 0 \<longrightarrow>
      cmd_query_response resp_buf = Some [Stderr ''Server error response'' []] \<and>
      cmd_book_response resp_buf = Some [Stderr ''Server error response'' []] \<and>
      cmd_custom_incr_response resp_buf facility = Some [Stderr ''Server error response'' []] \<and>
      cmd_change_response resp_buf = Some [Stderr ''Server error response'' []] \<and>
      cmd_monitor_response resp_buf facility duration_seconds callback_port =
        Some [Stderr ''Server error response'' []] \<and>
      cmd_reset_response resp_buf facility = Some [Stderr ''Server error response'' []]) \<and>
   (0 \<le> k \<and> k \<le> r \<and> r < INT_MAX \<and>
    (\<forall>j < nat k. sendto sock j request < 0 \<or>
        select sock j (c_div timeout_ms 1000, c_mod timeout_ms 1000 * 1000) = 0) \<and>
    0 \<le> sendto sock (nat k) request \<and>
    0 < select sock (nat k) (c_div timeout_ms 1000, c_mod timeout_ms 1000 * 1000) \<and>
    recvfrom sock (nat k) = Some dgram \<longrightarrow>
      (\<exists>log. udp_invoke sock request response timeout_ms r =
               (Returns (int (min (length dgram) (length response))),
                take (min (length dgram) (length response)) dgram @
                drop (min (length dgram) (length response)) response, log) \<and>
             sent_datagrams log = replicate (nat k + 1) request))"
proof (intro conjI impI)
  assume "0 \<le> k \<and> k \<le> r \<and> r < INT_MAX \<and>
    (\<forall>j < nat k. sendto sock j request < 0 \<or>
        select sock j (c_div timeout_ms 1000, c_mod timeout_ms 1000 * 1000) = 0) \<and>
    0 \<le> sendto sock (nat k) request \<and>
    0 < select sock (nat k) (c_div timeout_ms 1000, c_mod timeout_ms 1000 * 1000) \<and>
    recvfrom sock (nat k) = Some dgram"
  with udp_invoke_loop_reply [of r k sock request timeout_ms dgram 0 response "[]"]
  show "\<exists>log. udp_invoke sock request response timeout_ms r =
               (Returns (int (min (length dgram) (length response))),
                take (min (length dgram) (length response)) dgram @
                drop (min (length dgram) (length response)) response, log) \<and>
             sent_datagrams log = replicate (nat k + 1) request"
    by (simp add: udp_invoke_def)
qed (simp_all add: cmd_query_response_def cmd_book_response_def cmd_custom_incr_response_def
    cmd_change_response_def cmd_monitor_response_def cmd_reset_response_def)

theorem error_response_generic_witness:
  "cmd_query_response (conflict_response @ replicate 65518 0) =
     Some [Stderr ''Server error response'' []] \<and>
   cmd_book_response (conflict_response @ replicate 65518 0) =
     Some [Stderr ''Server error response'' []] \<and>
   (\<exists>log. udp_invoke (timeout_then conflict_response) query_LabA (replicate 65536 0) 500 3 =
            (Returns 18, conflict_response @ replicate 65518 0, log) \<and>
          sent_datagrams log = [query_LabA, query_LabA])"
proof -
  let ?h = "\<lparr>version = 1, opCode = 0x8001, requestId = 42, flags = 0, payloadLen = 2\<rparr>"
  have h: "read_header (conflict_response @ replicate 65518 0) 0 = Some (16, ?h) \<and>
           opCode ?h AND OP_ERROR_MASK \<noteq> 0"
    by (simp add: read_header_eq conflict_response_def OP_ERROR_MASK_def)
  have t: "(0::int) \<le> 1 \<and> (1::int) \<le> 3 \<and> 3 < INT_MAX \<and>
    (\<forall>j < nat 1. sendto (timeout_then conflict_response) j query_LabA < 0 \<or>
        select (timeout_then conflict_response) j (c_div 500 1000, c_mod 500 1000 * 1000) = 0) \<and>
    0 \<le> sendto (timeout_then conflict_response) (nat 1) query_LabA \<and>
    0 < select (timeout_then conflict_response) (nat 1) (c_div 500 1000, c_mod 500 1000 * 1000) \<and>
    recvfrom (timeout_then conflict_response) (nat 1) = Some conflict_response"
    by (simp add: timeout_then_def INT_MAX_def)
  have l: "min (length conflict_response) (length (replicate 65536 (0 :: u8))) = 18"
    by (simp add: conflict_response_def)
  have l': "length conflict_response = 18"
    by (simp add: conflict_response_def)
  note inst = error_response_generic [of "conflict_response @ replicate 65518 0" ?h
      LabA 30 10000 1 3 "timeout_then conflict_response" query_LabA 500 conflict_response
      "replicate 65536 0"]
  from inst [THEN conjunct1, rule_format, OF h]
  have a: "cmd_query_response (conflict_response @ replicate 65518 0) =
             Some [Stderr ''Server error response'' []]"
    and b: "cmd_book_response (conflict_response @ replicate 65518 0) =
             Some [Stderr ''Server error response'' []]"
    by blast+
  from inst [THEN conjunct2, rule_format, OF t]
  have "\<exists>log. udp_invoke (timeout_then conflict_response) query_LabA (replicate 65536 0) 500 3 =
            (Returns 18, conflict_response @ replicate 65518 0, log) \<and>
          sent_datagrams log = [query_LabA, query_LabA]"
    unfolding l by (simp add: l')
  with a b show ?thesis by blast
qed

text \<open>
  C5 fails as stated: the response carrying error kind 1 (conflict) and the one carrying
  kind 2 (not found) have the same outcome, the generic \<open>Server error response\<close>.
\<close>

theorem conflict_not_distinguished:
  "cmd_query_response (conflict_response @ replicate 65518 0) =
     Some [Stderr ''Server error response'' []] \<and>
   cmd_query_response (not_found_response @ replicate 65518 0) =
     Some [Stderr ''Server error response'' []]"
  by (simp add: cmd_query_response_def read_header_eq conflict_response_def
      not_found_response_def OP_ERROR_MASK_def)

text \<open>
  Buffers of equal length that agree from index 2 on differ at most in the version field
  of the header. The decoders used on a response read the same from both.
\<close>

lemma drop_agree:
  assumes "drop 2 b1 = drop 2 b2" "2 \<le> p"
  shows "drop p b1 = drop p (b2 :: u8 list)"
proof -
  from assms(2) have p: "(p - 2) + 2 = p"
    by simp
  have "drop (p - 2) (drop 2 b1) = drop p b1" "drop (p - 2) (drop 2 b2) = drop p b2"
    by (simp_all only: drop_drop p)
  with assms(1) show ?thesis
    by metis
qed

lemma read_u16_agree:
  assumes "length b1 = length b2" "drop 2 b1 = drop 2 b2" "2 \<le> p"
  shows "read_u16 b1 p = read_u16 b2 p"
  using assms(1) drop_agree [OF assms(2,3)] by (simp add: read_u16_eq)

lemma read_u32_agree:
  assumes "length b1 = length b2" "drop 2 b1 = drop 2 b2" "2 \<le> p"
  shows "read_u32 b1 p = read_u32 b2 p"
  using assms(1) drop_agree [OF assms(2,3)] by (simp add: read_u32_eq)

lemma read_i64_agree:
  assumes "length b1 = length b2" "drop 2 b1 = drop 2 b2" "2 \<le> p"
  shows "read_i64 b1 p = read_i64 b2 p"
proof -
  from assms(3) have "2 \<le> p + 4" by simp
  from assms(1) drop_agree [OF assms(2,3)] drop_agree [OF assms(2) this] show ?thesis
    by (simp add: read_i64_eq)
qed

lemma read_header_agree:
  assumes "length b1 = length b2" "drop 2 b1 = drop 2 b2"
  shows "read_header b1 0 = map_option (\<lambda>(n, h). (n, h\<lparr>version := ntohs (take 2 b1)\<rparr>)) (read_header b2 0)"
proof -
  from assms(2) have "drop (Suc (Suc 0)) b1 = drop (Suc (Suc 0)) b2"
    by (simp add: numeral_2_eq_2)
  with assms(1) drop_agree [OF assms(2), of 4] drop_agree [OF assms(2), of 8]
    drop_agree [OF assms(2), of 12]
  show ?thesis
    by (simp add: read_header_eq)
qed

lemma query_intervals_agree:
  "length b1 = length b2 \<Longrightarrow> drop 2 b1 = drop 2 b2 \<Longrightarrow> 2 \<le> pos \<Longrightarrow>
   query_intervals b1 pos k = query_intervals b2 pos k"
proof (induction k arbitrary: pos)
  case 0
  show ?case by simp
next
  case (Suc k)
  from Suc.prems have r: "read_i64 b1 (nat pos) = read_i64 b2 (nat pos)"
    "read_i64 b1 (nat (pos + 8)) = read_i64 b2 (nat (pos + 8))"
    by (auto intro!: read_i64_agree)
  from Suc.prems have "query_intervals b1 (pos + 8 + 8) k = query_intervals b2 (pos + 8 + 8) k"
    by (intro Suc.IH) simp_all
  with r show ?case
    by (simp add: read_i64_eq split: if_splits)
qed

lemma callback_intervals_agree:
  "length b1 = length b2 \<Longrightarrow> drop 2 b1 = drop 2 b2 \<Longrightarrow> 2 \<le> pos \<Longrightarrow>
   callback_intervals b1 pos k = callback_intervals b2 pos k"
proof (induction k arbitrary: pos)
  case 0
  show ?case by simp
next
  case (Suc k)
  from Suc.prems have r: "read_i64 b1 (nat pos) = read_i64 b2 (nat pos)"
    "read_i64 b1 (nat (pos + 8)) = read_i64 b2 (nat (pos + 8))"
    by (auto intro!: read_i64_agree)
  from Suc.prems have "callback_intervals b1 (pos + 8 + 8) k = callback_intervals b2 (pos + 8 + 8) k"
    by (intro Suc.IH) simp_all
  with r show ?case
    by simp
qed

lemma header_agree_cases:
  assumes "length b1 = length b2" "drop 2 b1 = drop 2 b2"
  obtains (short) "read_header b1 0 = None" "read_header b2 0 = None"
  | (full) h1 h2 where "read_header b1 0 = Some (16, h1)" "read_header b2 0 = Some (16, h2)"
      "opCode h1 = opCode h2" "requestId h1 = requestId h2" "flags h1 = flags h2"
proof (cases "read_header b2 0")
  case None
  with read_header_agree [OF assms] have "read_header b1 0 = None"
    by simp
  from this None show ?thesis
    by (rule short)
next
  case (Some r)
  then obtain h where h: "read_header b2 0 = Some (16, h)"
    by (auto simp: read_header_eq split: if_splits)
  with read_header_agree [OF assms]
  have "read_header b1 0 = Some (16, h\<lparr>version := ntohs (take 2 b1)\<rparr>)"
    by simp
  from this h show ?thesis
    by (rule full) simp_all
qed

lemma response_agree:
  assumes "length b1 = length b2" "drop 2 b1 = drop 2 b2"
  shows "cmd_query_response b1 = cmd_query_response b2"
    and "cmd_book_response b1 = cmd_book_response b2"
    and "cmd_custom_incr_response b1 facility = cmd_custom_incr_response b2 facility"
    and "cmd_change_response b1 = cmd_change_response b2"
    and "cmd_monitor_response b1 facility duration_seconds callback_port =
         cmd_monitor_response b2 facility duration_seconds callback_port"
    and "cmd_reset_response b1 facility = cmd_reset_response b2 facility"
    and "monitor_callback b1 = monitor_callback b2"
proof -
  have u16: "read_u16 b1 16 = read_u16 b2 16"
    and u32: "read_u32 b1 16 = read_u32 b2 16"
    and i64: "read_i64 b1 16 = read_i64 b2 16" "read_i64 b1 24 = read_i64 b2 24"
    and qi: "\<And>k. query_intervals b1 18 k = query_intervals b2 18 k"
    and ci: "\<And>k. callback_intervals b1 18 k = callback_intervals b2 18 k"
    by (simp_all add: read_u16_agree [OF assms] read_u32_agree [OF assms]
        read_i64_agree [OF assms] query_intervals_agree [OF assms]
        callback_intervals_agree [OF assms])
  have n: "\<And>b. read_u16 b 16 \<bind> (\<lambda>(n, count). query_intervals b1 (16 + n) (unat count) \<bind>
              (\<lambda>rest. Some (Stdout ''Available intervals: %u'' [Arg_u16 count] # rest))) =
           read_u16 b 16 \<bind> (\<lambda>(n, count). query_intervals b2 (16 + n) (unat count) \<bind>
              (\<lambda>rest. Some (Stdout ''Available intervals: %u'' [Arg_u16 count] # rest)))"
    by (simp add: read_u16_eq qi)
  show "cmd_query_response b1 = cmd_query_response b2"
    by (cases rule: header_agree_cases [OF assms])
       (simp_all add: cmd_query_response_def HEADER_LEN_def u16 n)
  show "cmd_book_response b1 = cmd_book_response b2"
    by (cases rule: header_agree_cases [OF assms])
       (simp_all add: cmd_book_response_def HEADER_LEN_def i64)
  show "cmd_custom_incr_response b1 facility = cmd_custom_incr_response b2 facility"
    by (cases rule: header_agree_cases [OF assms])
       (simp_all add: cmd_custom_incr_response_def HEADER_LEN_def i64)
  show "cmd_change_response b1 = cmd_change_response b2"
    by (cases rule: header_agree_cases [OF assms])
       (simp_all add: cmd_change_response_def HEADER_LEN_def i64)
  show "cmd_monitor_response b1 facility duration_seconds callback_port =
         cmd_monitor_response b2 facility duration_seconds callback_port"
    by (cases rule: header_agree_cases [OF assms])
       (simp_all add: cmd_monitor_response_def HEADER_LEN_def u16)
  show "cmd_reset_response b1 facility = cmd_reset_response b2 facility"
    by (cases rule: header_agree_cases [OF assms])
       (simp_all add: cmd_reset_response_def HEADER_LEN_def u32)
  show "monitor_callback b1 = monitor_callback b2"
    by (cases rule: header_agree_cases [OF assms])
       (simp_all add: monitor_callback_def HEADER_LEN_def Let_def u16 ci)
qed

text \<open>
  C7, as the code has it. No receiver looks at the version field: the six commands and
  the notification listener handle two messages that differ only in their version in
  the same way, so a message with a version other than 1 is interpreted exactly as the
  same message with version 1.
\<close>

theorem version_not_checked:
  assumes "length b1 = length b2" "drop 2 b1 = drop 2 b2"
  shows "cmd_query_response b1 = cmd_query_response b2 \<and>
         cmd_book_response b1 = cmd_book_response b2 \<and>
         cmd_custom_incr_response b1 facility = cmd_custom_incr_response b2 facility \<and>
         cmd_change_response b1 = cmd_change_response b2 \<and>
         cmd_monitor_response b1 facility duration_seconds callback_port =
           cmd_monitor_response b2 facility duration_seconds callback_port \<and>
         cmd_reset_response b1 facility = cmd_reset_response b2 facility \<and>
         monitor_callback b1 = monitor_callback b2"
  by (intro conjI response_agree [OF assms])

theorem version_not_checked_witness:
  "cmd_query_response (version2_response @ replicate 65502 0) =
     cmd_query_response (version1_response @ replicate 65502 0) \<and>
   monitor_callback (version2_response @ replicate 65502 0) =
     monitor_callback (version1_response @ replicate 65502 0)"
proof -
  have "length (version2_response @ replicate 65502 (0 :: u8)) =
        length (version1_response @ replicate 65502 (0 :: u8))"
    and "drop 2 (version2_response @ replicate 65502 0) =
         drop 2 (version1_response @ replicate 65502 0)"
    by (simp_all add: version2_response_def version1_response_def)
  from version_not_checked [OF this, of LabA 30 10000] show ?thesis
    by blast
qed

text \<open>
  C7 fails as stated: a query response with version 2 is not rejected, its interval is
  read and printed; a notification with version 9 is decoded as well.
\<close>

theorem version2_response_interpreted:
  "cmd_query_response (version2_response @ replicate 65502 0) =
     Some [Stdout ''Available intervals: %u'' [Arg_u16 1],
           Stdout ''  [%lld, %lld]'' [Arg_i64 1000, Arg_i64 2000]] \<and>
   monitor_callback (version9_callback @ replicate 65518 0) =
     Some [Stdout ''=== Callback received ==='' [],
           Stdout ''OpCode: 0x%04x, RequestId: %u, Flags: 0x%x'' [Arg_u16 1, Arg_u32 0, Arg_u32 2],
           Stdout ''Facility availability updated: %u intervals'' [Arg_u16 0],
           Stdout ''========================'' []]"
  by (simp add: cmd_query_response_def monitor_callback_def read_header_eq read_u16_eq
      read_i64_eq version2_response_def version9_callback_def OP_ERROR_MASK_def
      OP_QUERY_AVAIL_def HEADER_LEN_def)

section \<open>A whole run of \<open>cmd_query\<close>\<close>

text \<open>
  The query for \<open>"LabA"\<close> on a socket that times out once and then answers: the request
  as built, the run of \<open>udp_invoke\<close>, and the whole command. With the response carrying
  one interval \<open>[1000, 2000]\<close> the command sends the same 38 bytes twice and prints that
  interval; with the error response of kind 1 it sends twice and prints the generic
  error line.
\<close>

lemma cmd_query_request_LabA:
  "cmd_query_request (replicate 65536 0) LabA 0 41 =
     Some (query_LabA @ replicate 65498 0, 38, 42)"
  by (simp add: cmd_query_request_eq request_built_def request_header_def query_payload_def
      wire_string_def wire_i64_def wire_header_def be16_def be32_def LabA_def query_LabA_def)

lemma udp_invoke_one_retry:
  "udp_invoke (timeout_then version1_response) query_LabA (replicate 65536 0) 500 3 =
     (Returns 34, version1_response @ replicate 65502 0,
      [Sendto query_LabA, Stdout ''[retry %d/%d] timeout, retrying...'' [Arg_int 1, Arg_int 4],
       Sendto query_LabA])"
  by (simp add: udp_invoke_def udp_invoke_loop.simps timeout_then_def int_add_def INT_MAX_def
      INT_MIN_def version1_response_def)

lemma udp_invoke_one_retry_conflict:
  "udp_invoke (timeout_then conflict_response) query_LabA (replicate 65536 0) 500 3 =
     (Returns 18, conflict_response @ replicate 65518 0,
      [Sendto query_LabA, Stdout ''[retry %d/%d] timeout, retrying...'' [Arg_int 1, Arg_int 4],
       Sendto query_LabA])"
  by (simp add: udp_invoke_def udp_invoke_loop.simps timeout_then_def int_add_def INT_MAX_def
      INT_MIN_def conflict_response_def)

lemma take_query_LabA:
  "take 38 query_LabA @ replicate (38 - length query_LabA) 0 = query_LabA"
  by (simp add: query_LabA_def)

lemma cmd_query_one_retry:
  "cmd_query (timeout_then version1_response) (replicate 65536 0) (replicate 65536 0) LabA date_str
     500 3 0 41 =
   Some ([Sendto query_LabA,
          Stdout ''[retry %d/%d] timeout, retrying...'' [Arg_int 1, Arg_int 4],
          Sendto query_LabA,
          Stdout ''Available intervals: %u'' [Arg_u16 1],
          Stdout ''  [%lld, %lld]'' [Arg_i64 1000, Arg_i64 2000]], 42)"
proof -
  have "cmd_query_response (version1_response @ replicate 65502 0) =
     Some [Stdout ''Available intervals: %u'' [Arg_u16 1],
           Stdout ''  [%lld, %lld]'' [Arg_i64 1000, Arg_i64 2000]]"
    by (simp add: cmd_query_response_def read_header_eq read_u16_eq read_i64_eq
        version1_response_def OP_ERROR_MASK_def HEADER_LEN_def)
  then show ?thesis
    by (simp add: cmd_query_def cmd_query_request_LabA take_query_LabA udp_invoke_one_retry)
qed

lemma cmd_query_conflict:
  "cmd_query (timeout_then conflict_response) (replicate 65536 0) (replicate 65536 0) LabA date_str
     500 3 0 41 =
   Some ([Sendto query_LabA,
          Stdout ''[retry %d/%d] timeout, retrying...'' [Arg_int 1, Arg_int 4],
          Sendto query_LabA,
          Stderr ''Server error response'' []], 42)"
proof -
  have "cmd_query_response (conflict_response @ replicate 65518 0) =
     Some [Stderr ''Server error response'' []]"
    by (simp add: cmd_query_response_def read_header_eq conflict_response_def OP_ERROR_MASK_def)
  then show ?thesis
    by (simp add: cmd_query_def cmd_query_request_LabA take_query_LabA
        udp_invoke_one_retry_conflict)
qed

end
